theory Spec2Isabelle
  imports Main "HOL-Library.Word"
begin

unbundle bit_operations_syntax

section \<open>The entity manager of pkg/entities/manager.go\<close>

text \<open>
  The manager sequences calls to four collaborators: the state store (dapr client), the
  registry (etcd client), the search index and the runtime (state manager). None of them is
  part of manager.go, so each is a parameter of the model. A collaborator answers a call as
  a function of the calls made so far; the manager appends every call it issues to that
  history, so that the order of the calls, and the calls that were never made, can be read
  off the history an operation returns. Logging is left out, with one exception noted at
  \<open>DeleteEntity\<close>. The \<open>context.Context\<close> argument is passed through unchanged
  by every operation and is left out as well.
\<close>

subsection \<open>Data\<close>

type_synonym byte = "8 word"
type_synonym bytes = "byte list"

text \<open>
  Modelled from the spec: \<open>statem.Mapper\<close> and \<open>statem.Base\<close> are declared in
  package statem, outside manager.go. The fields are those of the entity snapshot of the
  spec (section 3); manager.go reads \<open>ID\<close>, \<open>Type\<close> and \<open>Mappers\<close>, and of a
  mapper \<open>Name\<close> and \<open>TQLString\<close> (the rule text). The payloads are opaque byte
  strings.
\<close>

record Mapper =
  Name :: string
  TQLString :: string

record Base =
  ID :: string
  Type :: string
  Properties :: bytes
  Configs :: bytes
  Mappers :: "Mapper list"

text \<open>\<open>dapr.StateItem\<close>; only \<open>Value\<close> is read.\<close>

record StateItem =
  Key :: string
  Value :: bytes
  Etag :: string

text \<open>
  Modelled from the spec: \<open>pb.PatchData\<close> is declared in the api package, outside
  manager.go. It is one patch operation (path, operator, serialized value); the manager
  hands the list to the runtime untouched.
\<close>

datatype PatchData = PatchData string string bytes

subsection \<open>Errors\<close>

text \<open>
  A Go \<open>error\<close> value is \<open>nil\<close> (\<open>None\<close>) or an error.
  \<open>ErrEntityNotFound\<close> and \<open>ErrEntityAreadyExisted\<close> are the two package-level
  error values manager.go names (they are declared in another file of package entities),
  \<open>Cause\<close> is an error produced by a collaborator, and \<open>Wrapped e msg\<close> is what
  \<open>errors.Wrap(e, msg)\<close> builds from a non-nil \<open>e\<close>.
\<close>

datatype error =
    ErrEntityNotFound
  | ErrEntityAreadyExisted
  | Cause string
  | Wrapped error string

text \<open>\<open>errors.Wrap\<close> returns \<open>nil\<close> when the error is \<open>nil\<close>.\<close>

fun Wrap :: "error option \<Rightarrow> string \<Rightarrow> error option" where
  "Wrap None msg = None"
| "Wrap (Some e) msg = Some (Wrapped e msg)"

text \<open>\<open>errors.Is\<close> walks the chain of wrapped errors and compares each link.\<close>

fun unwraps_to :: "error \<Rightarrow> error \<Rightarrow> bool" where
  "unwraps_to (Wrapped e msg) target = (Wrapped e msg = target \<or> unwraps_to e target)"
| "unwraps_to e target = (e = target)"

fun errors_Is :: "error option \<Rightarrow> error \<Rightarrow> bool" where
  "errors_Is None target = False"
| "errors_Is (Some e) target = unwraps_to e target"

subsection \<open>Collaborators\<close>

text \<open>One constructor per call the manager can issue.\<close>

datatype call =
    CRandRead nat
  | CGetState string string
  | CSaveState string string bytes
  | CDeleteState string string
  | CEtcdPut string string
  | CEtcdDelete string bool
  | CSearchDeleteByID string
  | CSendMsg string string
  | CDeleteStateMarchin Base
  | CSetProperties Base
  | CPatchEntity Base "PatchData list"
  | CSetConfigs Base
  | CAppendMapper Base
  | CRemoveMapper Base

text \<open>
  The collaborators. Every call takes the history of earlier calls first. A Go result
  \<open>(value, error)\<close> is a pair whose components may each be \<open>nil\<close>.
  \<open>etcdClient_Delete\<close> takes the key and whether \<open>clientv3.WithPrefix()\<close> was given.
  \<open>EncodeBase\<close>, \<open>DecodeBase\<close> (package statem) and \<open>FormatMapper\<close> (package util)
  are functions of their arguments only.
\<close>

record env =
  rand_Read :: "call list \<Rightarrow> nat \<Rightarrow> bytes \<times> error option"
  daprClient_GetState :: "call list \<Rightarrow> string \<Rightarrow> string \<Rightarrow> StateItem option \<times> error option"
  daprClient_SaveState :: "call list \<Rightarrow> string \<Rightarrow> string \<Rightarrow> bytes \<Rightarrow> error option"
  daprClient_DeleteState :: "call list \<Rightarrow> string \<Rightarrow> string \<Rightarrow> error option"
  etcdClient_Put :: "call list \<Rightarrow> string \<Rightarrow> string \<Rightarrow> error option"
  etcdClient_Delete :: "call list \<Rightarrow> string \<Rightarrow> bool \<Rightarrow> error option"
  searchClient_DeleteByID :: "call list \<Rightarrow> string \<Rightarrow> error option"
  stateManager_DeleteStateMarchin :: "call list \<Rightarrow> Base \<Rightarrow> Base option \<times> error option"
  stateManager_SetProperties :: "call list \<Rightarrow> Base \<Rightarrow> error option"
  stateManager_PatchEntity :: "call list \<Rightarrow> Base \<Rightarrow> PatchData list \<Rightarrow> error option"
  stateManager_SetConfigs :: "call list \<Rightarrow> Base \<Rightarrow> error option"
  stateManager_AppendMapper :: "call list \<Rightarrow> Base \<Rightarrow> error option"
  stateManager_RemoveMapper :: "call list \<Rightarrow> Base \<Rightarrow> error option"
  EncodeBase :: "Base \<Rightarrow> bytes \<times> error option"
  DecodeBase :: "bytes \<Rightarrow> Base option \<times> error option"
  FormatMapper :: "string \<Rightarrow> string \<Rightarrow> string \<Rightarrow> string"

subsection \<open>Constants\<close>

definition EntityStateName :: string where
  "EntityStateName = ''core-state''"

definition SubscriptionPrefix :: string where
  "SubscriptionPrefix = ''core.subsc.''"

definition TQLEtcdPrefix :: string where
  "TQLEtcdPrefix = ''core.tql.''"

subsection \<open>uuid\<close>

text \<open>
  \<open>fmt.Sprintf("%x", b)\<close> of a byte slice: two lower-case hexadecimal digits per byte,
  the high nibble first.
\<close>

definition hexdigit :: "byte \<Rightarrow> char" where
  "hexdigit n = ''0123456789abcdef'' ! unat n"

definition hex_byte :: "byte \<Rightarrow> string" where
  "hex_byte b = [hexdigit (drop_bit 4 b), hexdigit (b AND 0x0f)]"

definition Sprintf_x :: "bytes \<Rightarrow> string" where
  "Sprintf_x bs = concat (map hex_byte bs)"

text \<open>The Go slice expression \<open>b[i:j]\<close>.\<close>

definition subslice :: "'a list \<Rightarrow> nat \<Rightarrow> nat \<Rightarrow> 'a list" where
  "subslice xs i j = take (j - i) (drop i xs)"

text \<open>
  \<open>rand.Read(buf)\<close> writes into the buffer it is given: the bytes read replace a prefix
  of the buffer, whose length does not change.
\<close>

definition fill :: "bytes \<Rightarrow> bytes \<Rightarrow> bytes" where
  "fill buf bs = take (length buf) (bs @ drop (length bs) buf)"

text \<open>
  \<open>uuid\<close>: on a read error the result is the empty string; otherwise the variant bits of
  byte 8 and the version nibble of byte 6 are set and the 16 bytes are printed in five
  groups. In Go \<open>&^\<close> binds tighter than \<open>|\<close>.
\<close>

definition uuid :: "env \<Rightarrow> call list \<Rightarrow> string \<times> call list" where
  "uuid env h =
    (let h1 = h @ [CRandRead 16] in
     case rand_Read env h 16 of
       (bs, Some err) \<Rightarrow> ('''', h1)
     | (bs, None) \<Rightarrow>
         (let u0 = fill (replicate 16 0) bs;
              u1 = u0[8 := ((u0 ! 8) AND NOT 0xc0) OR 0x80];
              u2 = u1[6 := ((u1 ! 6) AND NOT 0xf0) OR 0x40]
          in (Sprintf_x (subslice u2 0 4) @ ''-'' @ Sprintf_x (subslice u2 4 6) @ ''-'' @
              Sprintf_x (subslice u2 6 8) @ ''-'' @ Sprintf_x (subslice u2 8 10) @ ''-'' @
              Sprintf_x (drop 10 u2), h1)))"

subsection \<open>Reading the persisted snapshot\<close>

text \<open>
  \<open>getEntityFromState\<close>: a failed read is wrapped; a \<open>nil\<close> item or an empty value
  is \<open>ErrEntityNotFound\<close>; otherwise the value is decoded, and a decoding error is
  wrapped.
\<close>

definition getEntityFromState ::
  "env \<Rightarrow> Base \<Rightarrow> call list \<Rightarrow> (Base option \<times> error option) \<times> call list" where
  "getEntityFromState env en h =
    (let h1 = h @ [CGetState EntityStateName (ID en)] in
     case daprClient_GetState env h EntityStateName (ID en) of
       (data, Some err) \<Rightarrow> ((None, Wrap (Some err) ''get entity properties''), h1)
     | (None, None) \<Rightarrow> ((None, Some ErrEntityNotFound), h1)
     | (Some item, None) \<Rightarrow>
         if length (Value item) = 0 then ((None, Some ErrEntityNotFound), h1)
         else (case DecodeBase env (Value item) of
                 (base, Some err) \<Rightarrow> ((None, Wrap (Some err) ''get entity properties''), h1)
               | (base, None) \<Rightarrow> ((base, None), h1)))"

subsection \<open>The operations\<close>

text \<open>
  What an operation hands back: the two Go results, or a run-time panic (a \<open>nil\<close>
  pointer dereferenced).
\<close>

datatype outcome = Returns "Base option" "error option" | Panics

text \<open>
  \<open>CreateEntity\<close>. The test after the probe is the source's:
  \<open>errors.Is(err, ErrEntityNotFound)\<close> guards the failing branch, and the assignment of
  \<open>ErrEntityAreadyExisted\<close> sits inside it, under \<open>nil == err\<close>.
\<close>

definition CreateEntity :: "env \<Rightarrow> Base \<Rightarrow> call list \<Rightarrow> outcome \<times> call list" where
  "CreateEntity env base0 h =
    (let (base, h1) =
           (if ID base0 = '''' then (let (u, h') = uuid env h in (base0\<lparr>ID := u\<rparr>, h'))
            else (base0, h))
     in case getEntityFromState env base h1 of
          ((found, err), h2) \<Rightarrow>
            if errors_Is err ErrEntityNotFound then
              (Returns None (if err = None then Some ErrEntityAreadyExisted else err), h2)
            else
              (case EncodeBase env base of
                 (bs, Some e) \<Rightarrow> (Returns None (Wrap (Some e) ''create entity''), h2)
               | (bs, None) \<Rightarrow>
                   (let h3 = h2 @ [CSaveState EntityStateName (ID base) bs] in
                    case daprClient_SaveState env h2 EntityStateName (ID base) bs of
                      Some e \<Rightarrow> (Returns None (Wrap (Some e) ''create entity''), h3)
                    | None \<Rightarrow> (Returns (Some base) None, h3 @ [CSendMsg (ID base) ''replace'']))))"

text \<open>
  \<open>DeleteEntity\<close>: four removals in a row, each returning at once when it fails. The
  log call of the fourth failure reads \<open>base.Mappers\<close>, where \<open>base\<close> is the pointer
  the runtime returned in the first step: if that pointer is \<open>nil\<close> the read panics.
\<close>

definition DeleteEntity :: "env \<Rightarrow> Base \<Rightarrow> call list \<Rightarrow> outcome \<times> call list" where
  "DeleteEntity env en h =
    (let h1 = h @ [CDeleteStateMarchin en] in
     case stateManager_DeleteStateMarchin env h en of
       (base, Some err) \<Rightarrow> (Returns None (Wrap (Some err) ''delete entity from runtime''), h1)
     | (base, None) \<Rightarrow>
         (let h2 = h1 @ [CSearchDeleteByID (ID en)] in
          case searchClient_DeleteByID env h1 (ID en) of
            Some err \<Rightarrow> (Returns None (Wrap (Some err) ''delete entity from es state''), h2)
          | None \<Rightarrow>
              (let h3 = h2 @ [CDeleteState EntityStateName (ID en)] in
               case daprClient_DeleteState env h2 EntityStateName (ID en) of
                 Some err \<Rightarrow> (Returns None (Wrap (Some err) ''delete entity from state''), h3)
               | None \<Rightarrow>
                   (let key = FormatMapper env (Type en) (ID en) ''subscription'';
                        h4 = h3 @ [CEtcdDelete key True]
                    in case etcdClient_Delete env h3 key True of
                         Some err \<Rightarrow>
                           (case base of
                              None \<Rightarrow> (Panics, h4)
                            | Some b \<Rightarrow> (Returns None (Wrap (Some err) ''delete entity''), h4))
                       | None \<Rightarrow> (Returns base None, h4)))))"

text \<open>\<open>GetProperties\<close> returns what the read returned, the error wrapped.\<close>

definition GetProperties :: "env \<Rightarrow> Base \<Rightarrow> call list \<Rightarrow> outcome \<times> call list" where
  "GetProperties env en h =
    (case getEntityFromState env en h of
       ((base, err), h1) \<Rightarrow> (Returns base (Wrap err ''entity GetProperties''), h1))"

text \<open>\<open>SetProperties\<close>, \<open>PatchEntity\<close>, \<open>SetConfigs\<close>: the runtime first, then the read.\<close>

definition SetProperties :: "env \<Rightarrow> Base \<Rightarrow> call list \<Rightarrow> outcome \<times> call list" where
  "SetProperties env en h =
    (let h1 = h @ [CSetProperties en] in
     case stateManager_SetProperties env h en of
       Some err \<Rightarrow> (Returns None (Wrap (Some err) ''set entity properties''), h1)
     | None \<Rightarrow>
         (case getEntityFromState env en h1 of
            ((base, err), h2) \<Rightarrow> (Returns base (Wrap err ''set entity properties''), h2)))"

definition PatchEntity ::
  "env \<Rightarrow> Base \<Rightarrow> PatchData list \<Rightarrow> call list \<Rightarrow> outcome \<times> call list" where
  "PatchEntity env en patchData h =
    (let h1 = h @ [CPatchEntity en patchData] in
     case stateManager_PatchEntity env h en patchData of
       Some err \<Rightarrow> (Returns None (Wrap (Some err) ''patch entity properties''), h1)
     | None \<Rightarrow>
         (case getEntityFromState env en h1 of
            ((base, err), h2) \<Rightarrow> (Returns base (Wrap err ''patch entity properties''), h2)))"

definition SetConfigs :: "env \<Rightarrow> Base \<Rightarrow> call list \<Rightarrow> outcome \<times> call list" where
  "SetConfigs env en h =
    (let h1 = h @ [CSetConfigs en] in
     case stateManager_SetConfigs env h en of
       Some err \<Rightarrow> (Returns None (Wrap (Some err) ''set entity configs''), h1)
     | None \<Rightarrow>
         (case getEntityFromState env en h1 of
            ((base, err), h2) \<Rightarrow> (Returns base (Wrap err ''set entity configs''), h2)))"

text \<open>
  The loops of \<open>AppendMapper\<close> and \<open>RemoveMapper\<close> over \<open>en.Mappers\<close>: one registry
  call per mapper, leaving the loop at the first error.
\<close>

definition mapper_key :: "Base \<Rightarrow> Mapper \<Rightarrow> string" where
  "mapper_key en mm = TQLEtcdPrefix @ ID en @ Name mm"

fun put_mappers :: "env \<Rightarrow> Base \<Rightarrow> Mapper list \<Rightarrow> call list \<Rightarrow> error option \<times> call list" where
  "put_mappers env en [] h = (None, h)"
| "put_mappers env en (mm # mms) h =
    (case etcdClient_Put env h (mapper_key en mm) (TQLString mm) of
       Some err \<Rightarrow> (Some err, h @ [CEtcdPut (mapper_key en mm) (TQLString mm)])
     | None \<Rightarrow> put_mappers env en mms (h @ [CEtcdPut (mapper_key en mm) (TQLString mm)]))"

fun delete_mappers :: "env \<Rightarrow> Base \<Rightarrow> Mapper list \<Rightarrow> call list \<Rightarrow> error option \<times> call list" where
  "delete_mappers env en [] h = (None, h)"
| "delete_mappers env en (mm # mms) h =
    (case etcdClient_Delete env h (mapper_key en mm) False of
       Some err \<Rightarrow> (Some err, h @ [CEtcdDelete (mapper_key en mm) False])
     | None \<Rightarrow> delete_mappers env en mms (h @ [CEtcdDelete (mapper_key en mm) False]))"

text \<open>
  \<open>AppendMapper\<close>: the first read keeps only the error of \<open>GetState\<close>
  (\<open>_, err := m.daprClient.GetState(...)\<close>); the item is dropped.
\<close>

definition AppendMapper :: "env \<Rightarrow> Base \<Rightarrow> call list \<Rightarrow> outcome \<times> call list" where
  "AppendMapper env en h =
    (let h1 = h @ [CGetState EntityStateName (ID en)] in
     case daprClient_GetState env h EntityStateName (ID en) of
       (data, Some err) \<Rightarrow> (Returns None (Wrap (Some err) ''get state''), h1)
     | (data, None) \<Rightarrow>
         (case put_mappers env en (Mappers en) h1 of
            (Some err, h2) \<Rightarrow> (Returns None (Wrap (Some err) ''append mapper''), h2)
          | (None, h2) \<Rightarrow>
              (let h3 = h2 @ [CAppendMapper en] in
               case stateManager_AppendMapper env h2 en of
                 Some err \<Rightarrow> (Returns None (Wrap (Some err) ''append mapper''), h3)
               | None \<Rightarrow>
                   (case getEntityFromState env en h3 of
                      ((base, err), h4) \<Rightarrow> (Returns base (Wrap err ''append mapper''), h4)))))"

text \<open>
  \<open>RemoveMapper\<close>: as above with a registry delete per mapper; a failed delete is
  wrapped with the message \<open>append mapper\<close>, as the source has it.
\<close>

definition RemoveMapper :: "env \<Rightarrow> Base \<Rightarrow> call list \<Rightarrow> outcome \<times> call list" where
  "RemoveMapper env en h =
    (let h1 = h @ [CGetState EntityStateName (ID en)] in
     case daprClient_GetState env h EntityStateName (ID en) of
       (data, Some err) \<Rightarrow> (Returns None (Wrap (Some err) ''get state''), h1)
     | (data, None) \<Rightarrow>
         (case delete_mappers env en (Mappers en) h1 of
            (Some err, h2) \<Rightarrow> (Returns None (Wrap (Some err) ''append mapper''), h2)
          | (None, h2) \<Rightarrow>
              (let h3 = h2 @ [CRemoveMapper en] in
               case stateManager_RemoveMapper env h2 en of
                 Some err \<Rightarrow> (Returns None (Wrap (Some err) ''remove mapper''), h3)
               | None \<Rightarrow>
                   (case getEntityFromState env en h3 of
                      ((base, err), h4) \<Rightarrow> (Returns base (Wrap err ''remove mapper''), h4)))))"

subsection \<open>Vocabulary of the properties\<close>

text \<open>
  The shape of an identifier: 36 characters, hyphens at positions 8, 13, 18 and 23,
  lower-case hexadecimal digits elsewhere, the version digit \<open>4\<close> at position 14 and a
  variant digit with the two high bits \<open>10\<close> (one of \<open>8\<close>, \<open>9\<close>, \<open>a\<close>,
  \<open>b\<close>) at position 19.
\<close>

definition is_hex :: "char \<Rightarrow> bool" where
  "is_hex c = (c \<in> set ''0123456789abcdef'')"

definition is_uuid4 :: "string \<Rightarrow> bool" where
  "is_uuid4 s =
    (length s = 36 \<and>
     list_all is_hex (subslice s 0 8) \<and> s ! 8 = CHR ''-'' \<and>
     list_all is_hex (subslice s 9 13) \<and> s ! 13 = CHR ''-'' \<and>
     list_all is_hex (subslice s 14 18) \<and> s ! 18 = CHR ''-'' \<and>
     list_all is_hex (subslice s 19 23) \<and> s ! 23 = CHR ''-'' \<and>
     list_all is_hex (subslice s 24 36) \<and>
     s ! 14 = CHR ''4'' \<and> s ! 19 \<in> set ''89ab'')"

text \<open>A result is exclusive: a snapshot and no error, or an error and no snapshot.\<close>

fun exclusive :: "outcome \<Rightarrow> bool" where
  "exclusive (Returns (Some b) None) = True"
| "exclusive (Returns None (Some e)) = True"
| "exclusive r = False"

text \<open>A result never carries a snapshot together with an error.\<close>

fun never_both :: "outcome \<Rightarrow> bool" where
  "never_both (Returns (Some b) (Some e)) = False"
| "never_both r = True"

text \<open>The four removals of a delete, in the order of the source.\<close>

definition delete_steps :: "env \<Rightarrow> Base \<Rightarrow> call list" where
  "delete_steps env en =
    [CDeleteStateMarchin en,
     CSearchDeleteByID (ID en),
     CDeleteState EntityStateName (ID en),
     CEtcdDelete (FormatMapper env (Type en) (ID en) ''subscription'') True]"

text \<open>
  What the four collaborators of a delete answer when they are called in that order,
  starting from history \<open>h\<close>.
\<close>

definition teardown_reply :: "env \<Rightarrow> Base \<Rightarrow> call list \<Rightarrow> Base option \<times> error option" where
  "teardown_reply env en h = stateManager_DeleteStateMarchin env h en"

definition search_reply :: "env \<Rightarrow> Base \<Rightarrow> call list \<Rightarrow> error option" where
  "search_reply env en h = searchClient_DeleteByID env (h @ take 1 (delete_steps env en)) (ID en)"

definition store_reply :: "env \<Rightarrow> Base \<Rightarrow> call list \<Rightarrow> error option" where
  "store_reply env en h =
     daprClient_DeleteState env (h @ take 2 (delete_steps env en)) EntityStateName (ID en)"

definition registry_reply :: "env \<Rightarrow> Base \<Rightarrow> call list \<Rightarrow> error option" where
  "registry_reply env en h =
     etcdClient_Delete env (h @ take 3 (delete_steps env en))
       (FormatMapper env (Type en) (ID en) ''subscription'') True"

text \<open>The registry calls for a list of mappers, one per mapper, in the order of the list.\<close>

definition put_calls :: "Base \<Rightarrow> Mapper list \<Rightarrow> call list" where
  "put_calls en mms = map (\<lambda>mm. CEtcdPut (TQLEtcdPrefix @ ID en @ Name mm) (TQLString mm)) mms"

definition remove_calls :: "Base \<Rightarrow> Mapper list \<Rightarrow> call list" where
  "remove_calls en mms = map (\<lambda>mm. CEtcdDelete (TQLEtcdPrefix @ ID en @ Name mm) False) mms"

text \<open>
  What the registry answers to the call for the \<open>k\<close>-th mapper of an append or a
  remove, the calls before it having been made.
\<close>

definition put_reply :: "env \<Rightarrow> Base \<Rightarrow> call list \<Rightarrow> nat \<Rightarrow> error option" where
  "put_reply env en h k =
     etcdClient_Put env
       (h @ [CGetState EntityStateName (ID en)] @ put_calls en (take k (Mappers en)))
       (TQLEtcdPrefix @ ID en @ Name (Mappers en ! k)) (TQLString (Mappers en ! k))"

definition remove_reply :: "env \<Rightarrow> Base \<Rightarrow> call list \<Rightarrow> nat \<Rightarrow> error option" where
  "remove_reply env en h k =
     etcdClient_Delete env
       (h @ [CGetState EntityStateName (ID en)] @ remove_calls en (take k (Mappers en)))
       (TQLEtcdPrefix @ ID en @ Name (Mappers en ! k)) False"

text \<open>The result of reading the persisted snapshot at history \<open>h\<close>.\<close>

definition reread :: "env \<Rightarrow> Base \<Rightarrow> call list \<Rightarrow> Base option \<times> error option" where
  "reread env en h = fst (getEntityFromState env en h)"

text \<open>Calls that reach the runtime, the registry, and calls that write to the state store.\<close>

fun runtime_call :: "call \<Rightarrow> bool" where
  "runtime_call (CSendMsg i opr) = True"
| "runtime_call (CDeleteStateMarchin b) = True"
| "runtime_call (CSetProperties b) = True"
| "runtime_call (CPatchEntity b p) = True"
| "runtime_call (CSetConfigs b) = True"
| "runtime_call (CAppendMapper b) = True"
| "runtime_call (CRemoveMapper b) = True"
| "runtime_call c = False"

fun registry_call :: "call \<Rightarrow> bool" where
  "registry_call (CEtcdPut k v) = True"
| "registry_call (CEtcdDelete k p) = True"
| "registry_call c = False"

fun store_write :: "call \<Rightarrow> bool" where
  "store_write (CSaveState s k v) = True"
| "store_write (CDeleteState s k) = True"
| "store_write c = False"

text \<open>
  What \<open>GetState\<close> answers for a key it does not hold when it reports no error: no
  item, or an item with an empty value.
\<close>

fun empty_reply :: "StateItem option \<times> error option \<Rightarrow> bool" where
  "empty_reply (None, None) = True"
| "empty_reply (Some item, None) = (Value item = [])"
| "empty_reply (data, Some err) = False"

subsection \<open>An in-memory store for the examples\<close>

text \<open>
  Collaborators that all succeed. The state store is replayed from the history: a key
  holds what the last \<open>SaveState\<close> wrote, unless a \<open>DeleteState\<close> came later; a key
  that is not held is answered with an item of empty value, as the dapr client does. The
  codec keeps the identifier only.
\<close>

definition store_step ::
  "(string \<times> string \<Rightarrow> bytes option) \<Rightarrow> call \<Rightarrow> (string \<times> string \<Rightarrow> bytes option)" where
  "store_step m c =
    (case c of
       CSaveState s k v \<Rightarrow> m((s, k) \<mapsto> v)
     | CDeleteState s k \<Rightarrow> m((s, k) := None)
     | _ \<Rightarrow> m)"

definition store_of :: "call list \<Rightarrow> string \<times> string \<Rightarrow> bytes option" where
  "store_of h = foldl store_step Map.empty h"

definition mem_env :: env where
  "mem_env =
    \<lparr> rand_Read = (\<lambda>h n. (take n [0x12, 0x34, 0x56, 0x78, 0x9a, 0xbc, 0xde, 0xf0,
                                   0x0f, 0x1e, 0x2d, 0x3c, 0x4b, 0x5a, 0x69, 0x78], None)),
      daprClient_GetState = (\<lambda>h s k.
        (Some \<lparr>Key = k, Value = (case store_of h (s, k) of None \<Rightarrow> [] | Some v \<Rightarrow> v),
               Etag = ''''\<rparr>, None)),
      daprClient_SaveState = (\<lambda>h s k v. None),
      daprClient_DeleteState = (\<lambda>h s k. None),
      etcdClient_Put = (\<lambda>h k v. None),
      etcdClient_Delete = (\<lambda>h k p. None),
      searchClient_DeleteByID = (\<lambda>h i. None),
      stateManager_DeleteStateMarchin = (\<lambda>h b. (Some b, None)),
      stateManager_SetProperties = (\<lambda>h b. None),
      stateManager_PatchEntity = (\<lambda>h b p. None),
      stateManager_SetConfigs = (\<lambda>h b. None),
      stateManager_AppendMapper = (\<lambda>h b. None),
      stateManager_RemoveMapper = (\<lambda>h b. None),
      EncodeBase = (\<lambda>b. (map (\<lambda>c. of_nat (of_char c)) (ID b), None)),
      DecodeBase = (\<lambda>bs.
        (Some \<lparr>ID = map (\<lambda>x. char_of (unat x)) bs, Type = '''', Properties = [],
               Configs = [], Mappers = []\<rparr>, None)),
      FormatMapper = (\<lambda>t i n. t @ ''.'' @ i @ ''.'' @ n) \<rparr>"

definition dev1 :: Base where
  "dev1 = \<lparr>ID = ''dev-1'', Type = ''device'', Properties = [], Configs = [], Mappers = []\<rparr>"

definition rule1 :: Mapper where
  "rule1 = \<lparr>Name = ''m1'', TQLString = ''insert into dev-1 select dev-2.temp''\<rparr>"

definition rule2 :: Mapper where
  "rule2 = \<lparr>Name = ''m2'', TQLString = ''insert into dev-1 select dev-3.temp''\<rparr>"

text \<open>A history in which \<open>dev-1\<close> has been saved.\<close>

definition saved_dev1 :: "call list" where
  "saved_dev1 = [CSaveState ''core-state'' ''dev-1'' [1, 2, 3]]"

text \<open>The in-memory collaborators with one of them failing.\<close>

definition no_runtime :: env where
  "no_runtime =
     mem_env\<lparr>stateManager_DeleteStateMarchin :=
               \<lambda>h b. (None, Some (Cause ''no such state machine''))\<rparr>"

definition no_search :: env where
  "no_search = mem_env\<lparr>searchClient_DeleteByID := \<lambda>h i. Some (Cause ''search unavailable'')\<rparr>"

definition no_store_delete :: env where
  "no_store_delete =
     mem_env\<lparr>daprClient_DeleteState := \<lambda>h s k. Some (Cause ''store unavailable'')\<rparr>"

definition no_registry :: env where
  "no_registry =
     mem_env\<lparr>etcdClient_Delete := \<lambda>h k p. Some (Cause ''registry unavailable''),
             etcdClient_Put := \<lambda>h k v. Some (Cause ''registry unavailable'')\<rparr>"

text \<open>A registry that refuses the key of mapper \<open>m2\<close>, and \<open>dev-1\<close> with two rules.\<close>

definition flaky_registry :: env where
  "flaky_registry =
     mem_env\<lparr>etcdClient_Put := \<lambda>h k v. if k = ''core.tql.dev-1m2'' then Some (Cause ''registry unavailable'') else None,
             etcdClient_Delete := \<lambda>h k p. if k = ''core.tql.dev-1m2'' then Some (Cause ''registry unavailable'') else None\<rparr>"

definition dev1_rules :: Base where
  "dev1_rules = dev1\<lparr>Mappers := [rule1, rule2]\<rparr>"

text \<open>
  A history in which \<open>dev-1\<close> is stored as the codec of \<open>mem_env\<close> writes it,
  what that value decodes to, a runtime that refuses every mutation, and a random source
  that fails.
\<close>

definition stored_dev1 :: "call list" where
  "stored_dev1 = [CSaveState ''core-state'' ''dev-1'' [100, 101, 118, 45, 49]]"

definition decoded_dev1 :: Base where
  "decoded_dev1 = \<lparr>ID = ''dev-1'', Type = '''', Properties = [], Configs = [], Mappers = []\<rparr>"

definition no_mutation :: env where
  "no_mutation =
     mem_env\<lparr>stateManager_SetProperties := \<lambda>h b. Some (Cause ''runtime unavailable''),
             stateManager_PatchEntity := \<lambda>h b p. Some (Cause ''runtime unavailable''),
             stateManager_SetConfigs := \<lambda>h b. Some (Cause ''runtime unavailable'')\<rparr>"

definition no_entropy :: env where
  "no_entropy = mem_env\<lparr>rand_Read := \<lambda>h n. ([], Some (Cause ''entropy source unavailable''))\<rparr>"

text \<open>A state store whose \<open>GetState\<close> returns no item and no error.\<close>

definition nil_item :: env where
  "nil_item = mem_env\<lparr>daprClient_GetState := \<lambda>h s k. (None, None)\<rparr>"

text \<open>
  Further collaborators for the examples: a state store whose reads fail, a codec that
  rejects every value, the item stored under \<open>dev-1\<close> in \<open>stored_dev1\<close>, a runtime
  whose teardown reports success without a snapshot (alone, and with a registry that
  fails), and a decoder that reports success without a snapshot.
\<close>

definition no_store_read :: env where
  "no_store_read = mem_env\<lparr>daprClient_GetState := \<lambda>h s k. (None, Some (Cause ''store unavailable''))\<rparr>"

definition bad_codec :: env where
  "bad_codec = mem_env\<lparr>DecodeBase := \<lambda>bs. (None, Some (Cause ''malformed snapshot''))\<rparr>"

definition stored_item :: StateItem where
  "stored_item = \<lparr>Key = ''dev-1'', Value = [100, 101, 118, 45, 49], Etag = ''''\<rparr>"

definition nil_teardown :: env where
  "nil_teardown = mem_env\<lparr>stateManager_DeleteStateMarchin := \<lambda>h b. (None, None)\<rparr>"

definition nil_teardown_no_registry :: env where
  "nil_teardown_no_registry =
     nil_teardown\<lparr>etcdClient_Delete := \<lambda>h k p. Some (Cause ''registry unavailable'')\<rparr>"

definition nil_decoder :: env where
  "nil_decoder = mem_env\<lparr>DecodeBase := \<lambda>bs. (None, None)\<rparr>"

text \<open>A history in which the identifier that \<open>mem_env\<close> generates has been saved.\<close>

definition saved_generated :: "call list" where
  "saved_generated = [CSaveState ''core-state'' ''12345678-9abc-4ef0-8f1e-2d3c4b5a6978'' [1]]"

section \<open>Properties\<close>

subsection \<open>Identifier generation\<close>

lemma bit_index_cases: "(n::nat) < 8 \<Longrightarrow> n \<in> {0, 1, 2, 3, 4, 5, 6, 7}"
  by simp arith

text \<open>Clearing the high nibble and setting \<open>0x40\<close> leaves the high nibble 4.\<close>

lemma version_nibble: "drop_bit 4 (((x::byte) AND NOT 0xf0) OR 0x40) = 4"
  by (rule bit_word_eqI) (auto simp add: bit_simps)

text \<open>
  Clearing the two high bits and setting \<open>0x80\<close> leaves a high nibble \<open>10xx\<close>, where
  \<open>xx\<close> are bits 5 and 4 of the random byte.
\<close>

lemma variant_nibble:
  "drop_bit 4 (((x::byte) AND NOT 0xc0) OR 0x80) =
     (if bit x 5 then 2 else 0) OR (if bit x 4 then 1 else 0) OR 8"
proof (rule bit_word_eqI)
  fix n :: nat
  assume "n < LENGTH(8)"
  then have "n < 8" by simp
  from bit_index_cases [OF this]
  show "bit (drop_bit 4 ((x AND NOT 0xc0) OR 0x80)) n =
        bit ((if bit x 5 then 2 else 0) OR (if bit x 4 then 1 else 0) OR (8::byte)) n"
    by (auto simp add: bit_simps)
qed

lemma version_digit: "hexdigit (drop_bit 4 (((x::byte) AND NOT 0xf0) OR 0x40)) = CHR ''4''"
  by (simp add: version_nibble hexdigit_def)

lemma variant_digit: "hexdigit (drop_bit 4 (((x::byte) AND NOT 0xc0) OR 0x80)) \<in> set ''89ab''"
  by (simp only: variant_nibble) (simp add: hexdigit_def)

lemma hi_lt: "unat (drop_bit 4 (x::byte)) < 16"
proof -
  have "unat x < 2 ^ LENGTH(8)" by (rule unsigned_less)
  then have "unat x div 2 ^ 4 < 16" by simp
  moreover have "unat (drop_bit 4 x) = drop_bit 4 (unat x)" by (rule unat_drop_bit_eq)
  moreover have "drop_bit 4 (unat x) = unat x div 2 ^ 4" by (rule drop_bit_eq_div)
  ultimately show ?thesis by (simp only:)
qed

lemma lo_lt: "unat ((x::byte) AND 0x0f) < 16"
proof -
  have "unat (x AND 15) \<le> unat (15 :: byte)"
    by (rule word_and_le1 [THEN word_le_nat_alt [THEN iffD1]])
  then show ?thesis by simp
qed

lemma is_hex_hexdigit: "unat n < 16 \<Longrightarrow> is_hex (hexdigit n)"
  unfolding is_hex_def hexdigit_def by (rule nth_mem) simp

lemma is_hex_chars:
  "is_hex CHR ''4''" "is_hex CHR ''8''" "is_hex CHR ''9''" "is_hex CHR ''a''" "is_hex CHR ''b''"
  by (simp_all add: is_hex_def)

lemma length16:
  "length (xs::'a list) = 16 \<Longrightarrow>
   \<exists>a0 a1 a2 a3 a4 a5 a6 a7 a8 a9 a10 a11 a12 a13 a14 a15.
     xs = [a0, a1, a2, a3, a4, a5, a6, a7, a8, a9, a10, a11, a12, a13, a14, a15]"
  by (simp add: eval_nat_numeral length_Suc_conv) blast

lemma fill_length: "length (fill buf bs) = length buf"
  by (simp add: fill_def)

text \<open>The five printed groups of any 16 bytes whose bytes 6 and 8 carry the two marks.\<close>

lemma format_shape:
  assumes v: "hexdigit (drop_bit 4 b6) = CHR ''4''"
      and w: "hexdigit (drop_bit 4 b8) \<in> set ''89ab''"
      and us: "us = [b0, b1, b2, b3, b4, b5, b6, b7, b8, b9, b10, b11, b12, b13, b14, b15]"
  shows "is_uuid4 (Sprintf_x (subslice us 0 4) @ ''-'' @ Sprintf_x (subslice us 4 6) @ ''-'' @
              Sprintf_x (subslice us 6 8) @ ''-'' @ Sprintf_x (subslice us 8 10) @ ''-'' @
              Sprintf_x (drop 10 us))"
  using v w unfolding us is_uuid4_def
  by (simp add: subslice_def Sprintf_x_def hex_byte_def is_hex_hexdigit hi_lt lo_lt is_hex_chars)

lemma uuid_shape:
  assumes "snd (rand_Read env h 16) = None"
  shows "is_uuid4 (fst (uuid env h))"
proof -
  obtain bs where r: "rand_Read env h 16 = (bs, None)"
    using assms by (cases "rand_Read env h 16") simp
  have "length (fill (replicate 16 0) bs) = 16" by (simp add: fill_length)
  from length16 [OF this] obtain a0 a1 a2 a3 a4 a5 a6 a7 a8 a9 a10 a11 a12 a13 a14 a15
    where u0: "fill (replicate 16 0) bs =
                 [a0, a1, a2, a3, a4, a5, a6, a7, a8, a9, a10, a11, a12, a13, a14, a15]"
    by blast
  define b6 where "b6 = (a6 AND NOT 0xf0) OR 0x40"
  define b8 where "b8 = (a8 AND NOT 0xc0) OR 0x80"
  define us where "us = [a0, a1, a2, a3, a4, a5, b6, a7, b8, a9, a10, a11, a12, a13, a14, a15]"
  have v: "hexdigit (drop_bit 4 b6) = CHR ''4''" unfolding b6_def by (rule version_digit)
  have w: "hexdigit (drop_bit 4 b8) \<in> set ''89ab''" unfolding b8_def by (rule variant_digit)
  have "fst (uuid env h) =
          Sprintf_x (subslice us 0 4) @ ''-'' @ Sprintf_x (subslice us 4 6) @ ''-'' @
          Sprintf_x (subslice us 6 8) @ ''-'' @ Sprintf_x (subslice us 8 10) @ ''-'' @
          Sprintf_x (drop 10 us)"
    by (simp add: uuid_def r u0 us_def b6_def b8_def Let_def)
  then show ?thesis using format_shape [OF v w us_def] by simp
qed

lemma uuid_history: "snd (uuid env h) = h @ [CRandRead 16]"
  by (simp add: uuid_def Let_def split: prod.splits option.splits)

subsection \<open>Evaluating the in-memory store\<close>

lemma mem_env_sel:
  "rand_Read mem_env = (\<lambda>h n. (take n [0x12, 0x34, 0x56, 0x78, 0x9a, 0xbc, 0xde, 0xf0,
                                   0x0f, 0x1e, 0x2d, 0x3c, 0x4b, 0x5a, 0x69, 0x78], None))"
  "daprClient_GetState mem_env = (\<lambda>h s k.
        (Some \<lparr>Key = k, Value = (case store_of h (s, k) of None \<Rightarrow> [] | Some v \<Rightarrow> v),
               Etag = ''''\<rparr>, None))"
  "daprClient_SaveState mem_env = (\<lambda>h s k v. None)"
  "daprClient_DeleteState mem_env = (\<lambda>h s k. None)"
  "etcdClient_Put mem_env = (\<lambda>h k v. None)"
  "etcdClient_Delete mem_env = (\<lambda>h k p. None)"
  "searchClient_DeleteByID mem_env = (\<lambda>h i. None)"
  "stateManager_DeleteStateMarchin mem_env = (\<lambda>h b. (Some b, None))"
  "stateManager_SetProperties mem_env = (\<lambda>h b. None)"
  "stateManager_PatchEntity mem_env = (\<lambda>h b p. None)"
  "stateManager_SetConfigs mem_env = (\<lambda>h b. None)"
  "stateManager_AppendMapper mem_env = (\<lambda>h b. None)"
  "stateManager_RemoveMapper mem_env = (\<lambda>h b. None)"
  "EncodeBase mem_env = (\<lambda>b. (map (\<lambda>c. of_nat (of_char c)) (ID b), None))"
  "DecodeBase mem_env = (\<lambda>bs.
        (Some \<lparr>ID = map (\<lambda>x. char_of (unat x)) bs, Type = '''', Properties = [],
               Configs = [], Mappers = []\<rparr>, None))"
  "FormatMapper mem_env = (\<lambda>t i n. t @ ''.'' @ i @ ''.'' @ n)"
  by (simp_all add: mem_env_def)

lemmas mem_eval = mem_env_sel store_of_def store_step_def EntityStateName_def TQLEtcdPrefix_def
  getEntityFromState_def dev1_def rule1_def rule2_def saved_dev1_def saved_generated_def

lemma uuid_mem: "uuid mem_env h = (''12345678-9abc-4ef0-8f1e-2d3c4b5a6978'', h @ [CRandRead 16])"
  by (simp add: uuid_def mem_env_sel fill_def subslice_def Sprintf_x_def hex_byte_def
        hexdigit_def Let_def)

subsection \<open>Create and delete\<close>

text \<open>
  C4. A create call with an empty \<open>ID\<close>, the random source succeeding: the identifier
  generated has the 8-4-4-4-12 hexadecimal shape with version digit 4 and a variant digit
  whose two high bits are 10, and any snapshot the call returns carries that identifier.
\<close>

theorem CreateEntity_generated_ID:
  assumes "ID base = ''''" and "snd (rand_Read env h 16) = None"
  shows "is_uuid4 (fst (uuid env h)) \<and>
         (\<forall>b e. fst (CreateEntity env base h) = Returns (Some b) e \<longrightarrow>
                ID b = fst (uuid env h) \<and> is_uuid4 (ID b))"
proof -
  have s: "is_uuid4 (fst (uuid env h))" using assms(2) by (rule uuid_shape)
  have "ID b = fst (uuid env h)" if "fst (CreateEntity env base h) = Returns (Some b) e" for b e
    using that assms(1)
    by (auto simp add: CreateEntity_def Let_def split: prod.splits option.splits if_splits)
  with s show ?thesis by simp
qed

theorem CreateEntity_generated_ID_witness:
  "ID (dev1\<lparr>ID := ''''\<rparr>) = '''' \<and> snd (rand_Read mem_env saved_generated 16) = None \<and>
   fst (CreateEntity mem_env (dev1\<lparr>ID := ''''\<rparr>) saved_generated) =
     Returns (Some (dev1\<lparr>ID := ''12345678-9abc-4ef0-8f1e-2d3c4b5a6978''\<rparr>)) None \<and>
   is_uuid4 ''12345678-9abc-4ef0-8f1e-2d3c4b5a6978''"
  using CreateEntity_generated_ID [of "dev1\<lparr>ID := ''''\<rparr>" mem_env saved_generated]
  by (simp add: CreateEntity_def uuid_mem mem_eval)

lemmas reply_defs = teardown_reply_def search_reply_def store_reply_def registry_reply_def
  delete_steps_def no_runtime_def no_search_def no_store_delete_def no_registry_def

text \<open>
  C1. What the create operation does with the three outcomes of the existence probe, on
  the in-memory store. (1) \<open>dev-1\<close> is not held: the probe reports
  \<open>ErrEntityNotFound\<close> and the create fails with it, nothing is written. (2) \<open>dev-1\<close>
  is held: the create goes on, saves and notifies the runtime. (3) the read fails with
  another error: the error is dropped and the create goes on as well.
\<close>

theorem CreateEntity_probe_inverted:
  "CreateEntity mem_env dev1 [] =
     (Returns None (Some ErrEntityNotFound), [CGetState ''core-state'' ''dev-1''])
   \<and> CreateEntity mem_env dev1 saved_dev1 =
     (Returns (Some dev1) None,
      saved_dev1 @ [CGetState ''core-state'' ''dev-1'',
                    CSaveState ''core-state'' ''dev-1'' [100, 101, 118, 45, 49],
                    CSendMsg ''dev-1'' ''replace''])
   \<and> CreateEntity (mem_env\<lparr>daprClient_GetState :=
                       \<lambda>h s k. (None, Some (Cause ''connection refused''))\<rparr>) dev1 [] =
     (Returns (Some dev1) None,
      [CGetState ''core-state'' ''dev-1'',
       CSaveState ''core-state'' ''dev-1'' [100, 101, 118, 45, 49],
       CSendMsg ''dev-1'' ''replace''])"
  by (simp add: CreateEntity_def mem_eval)

text \<open>
  For any collaborators: no create call returns \<open>ErrEntityAreadyExisted\<close>; the
  assignment of that error is never reached.
\<close>

lemma CreateEntity_never_already_existed:
  "fst (CreateEntity env base h) \<noteq> Returns b (Some ErrEntityAreadyExisted)"
  by (auto simp add: CreateEntity_def Let_def split: prod.splits option.splits)

text \<open>
  C2. A create call for \<open>dev-1\<close> when the store holds \<open>dev-1\<close>: the call returns the
  snapshot and no error, it issues one store write and one runtime notification, and the
  value held under \<open>dev-1\<close> is no longer the one first written.
\<close>

theorem CreateEntity_existing_overwrites:
  "fst (CreateEntity mem_env dev1 saved_dev1) = Returns (Some dev1) None
   \<and> filter store_write (drop (length saved_dev1) (snd (CreateEntity mem_env dev1 saved_dev1))) =
       [CSaveState ''core-state'' ''dev-1'' [100, 101, 118, 45, 49]]
   \<and> filter runtime_call (drop (length saved_dev1) (snd (CreateEntity mem_env dev1 saved_dev1))) =
       [CSendMsg ''dev-1'' ''replace'']
   \<and> store_of saved_dev1 (''core-state'', ''dev-1'') = Some [1, 2, 3]
   \<and> store_of (snd (CreateEntity mem_env dev1 saved_dev1)) (''core-state'', ''dev-1'') =
       Some [100, 101, 118, 45, 49]"
  by (simp add: CreateEntity_def mem_eval)

text \<open>
  C3, as stated, fails. With a teardown that returns no snapshot and no error, a search
  delete and a store delete that succeed and a registry delete that fails, the fourth step
  is the first to fail and the call does not return a wrapped error: it panics in the log
  call that reads \<open>base.Mappers\<close>.
\<close>

theorem DeleteEntity_pipeline_counterexample:
  "teardown_reply nil_teardown_no_registry dev1 [] = (None, None)
   \<and> search_reply nil_teardown_no_registry dev1 [] = None
   \<and> store_reply nil_teardown_no_registry dev1 [] = None
   \<and> registry_reply nil_teardown_no_registry dev1 [] = Some (Cause ''registry unavailable'')
   \<and> DeleteEntity nil_teardown_no_registry dev1 [] =
       (Panics,
        [CDeleteStateMarchin dev1, CSearchDeleteByID ''dev-1'', CDeleteState ''core-state'' ''dev-1'',
         CEtcdDelete ''device.dev-1.subscription'' True])"
  by (simp add: DeleteEntity_def teardown_reply_def search_reply_def store_reply_def
        registry_reply_def delete_steps_def nil_teardown_no_registry_def nil_teardown_def
        mem_env_sel EntityStateName_def dev1_def)

text \<open>
  C3, amended. A delete call issues the runtime teardown, the search delete, the store
  delete and the registry prefix delete in this order. The first of them to fail ends the
  call: the history holds the steps up to the failing one and nothing after it (no later
  step, no compensating call). A failure of the first, second or third step returns the
  error wrapped with \<open>delete entity from runtime\<close>, \<open>delete entity from es state\<close> or
  \<open>delete entity from state\<close>; a failure of the fourth step returns the error wrapped
  with \<open>delete entity\<close> when the teardown had returned a snapshot. When all four
  succeed the call returns what the teardown returned.
\<close>

theorem DeleteEntity_pipeline:
  "(\<forall>e. snd (teardown_reply env en h) = Some e \<longrightarrow>
        DeleteEntity env en h =
          (Returns None (Some (Wrapped e ''delete entity from runtime'')),
           h @ take 1 (delete_steps env en)))
   \<and> (\<forall>e. snd (teardown_reply env en h) = None \<and> search_reply env en h = Some e \<longrightarrow>
        DeleteEntity env en h =
          (Returns None (Some (Wrapped e ''delete entity from es state'')),
           h @ take 2 (delete_steps env en)))
   \<and> (\<forall>e. snd (teardown_reply env en h) = None \<and> search_reply env en h = None \<and>
           store_reply env en h = Some e \<longrightarrow>
        DeleteEntity env en h =
          (Returns None (Some (Wrapped e ''delete entity from state'')),
           h @ take 3 (delete_steps env en)))
   \<and> (\<forall>e b. teardown_reply env en h = (Some b, None) \<and> search_reply env en h = None \<and>
           store_reply env en h = None \<and> registry_reply env en h = Some e \<longrightarrow>
        DeleteEntity env en h =
          (Returns None (Some (Wrapped e ''delete entity'')), h @ delete_steps env en))
   \<and> (snd (teardown_reply env en h) = None \<and> search_reply env en h = None \<and>
           store_reply env en h = None \<and> registry_reply env en h = None \<longrightarrow>
        DeleteEntity env en h =
          (Returns (fst (teardown_reply env en h)) None, h @ delete_steps env en))"
  by (auto simp add: DeleteEntity_def teardown_reply_def search_reply_def store_reply_def
        registry_reply_def delete_steps_def Let_def split: prod.splits option.splits)

theorem DeleteEntity_pipeline_witness:
  "DeleteEntity no_runtime dev1 [] =
     (Returns None (Some (Wrapped (Cause ''no such state machine'') ''delete entity from runtime'')),
      [CDeleteStateMarchin dev1])
   \<and> search_reply no_search dev1 [] = Some (Cause ''search unavailable'')
   \<and> DeleteEntity no_search dev1 [] =
     (Returns None (Some (Wrapped (Cause ''search unavailable'') ''delete entity from es state'')),
      [CDeleteStateMarchin dev1, CSearchDeleteByID ''dev-1''])
   \<and> DeleteEntity no_store_delete dev1 [] =
     (Returns None (Some (Wrapped (Cause ''store unavailable'') ''delete entity from state'')),
      [CDeleteStateMarchin dev1, CSearchDeleteByID ''dev-1'', CDeleteState ''core-state'' ''dev-1''])
   \<and> DeleteEntity no_registry dev1 [] =
     (Returns None (Some (Wrapped (Cause ''registry unavailable'') ''delete entity'')),
      [CDeleteStateMarchin dev1, CSearchDeleteByID ''dev-1'', CDeleteState ''core-state'' ''dev-1'',
       CEtcdDelete ''device.dev-1.subscription'' True])
   \<and> DeleteEntity mem_env dev1 [] =
     (Returns (Some dev1) None,
      [CDeleteStateMarchin dev1, CSearchDeleteByID ''dev-1'', CDeleteState ''core-state'' ''dev-1'',
       CEtcdDelete ''device.dev-1.subscription'' True])"
  using DeleteEntity_pipeline [of no_runtime dev1 "[]"]
        DeleteEntity_pipeline [of no_search dev1 "[]"]
        DeleteEntity_pipeline [of no_store_delete dev1 "[]"]
        DeleteEntity_pipeline [of no_registry dev1 "[]"]
        DeleteEntity_pipeline [of mem_env dev1 "[]"]
  by (simp add: reply_defs mem_env_sel EntityStateName_def) (simp add: dev1_def)

text \<open>
  The corner left out above: a teardown that reports success without a snapshot, followed
  by a failing registry delete, ends in the panic of the log call.
\<close>

lemma DeleteEntity_nil_snapshot:
  assumes "teardown_reply env en h = (None, None)" and "search_reply env en h = None"
      and "store_reply env en h = None" and "registry_reply env en h = Some e"
  shows "DeleteEntity env en h = (Panics, h @ delete_steps env en)"
  using assms
  by (simp add: DeleteEntity_def teardown_reply_def search_reply_def store_reply_def
        registry_reply_def delete_steps_def Let_def)

subsection \<open>The mapper loops\<close>

lemma put_mappers_fails:
  assumes "k < length mms"
      and "\<forall>i<k. etcdClient_Put env (h @ put_calls en (take i mms))
                     (mapper_key en (mms ! i)) (TQLString (mms ! i)) = None"
      and "etcdClient_Put env (h @ put_calls en (take k mms))
             (mapper_key en (mms ! k)) (TQLString (mms ! k)) = Some e"
  shows "put_mappers env en mms h = (Some e, h @ put_calls en (take (Suc k) mms))"
  using assms
proof (induction mms arbitrary: k h)
  case Nil
  then show ?case by simp
next
  case (Cons mm mms)
  show ?case
  proof (cases k)
    case 0
    with Cons.prems(3) show ?thesis
      by (simp add: put_calls_def mapper_key_def)
  next
    case (Suc j)
    let ?c = "CEtcdPut (mapper_key en mm) (TQLString mm)"
    have first: "etcdClient_Put env h (mapper_key en mm) (TQLString mm) = None"
      using Cons.prems(2) [rule_format, of 0] Suc by (simp add: put_calls_def)
    have j: "j < length mms" using Cons.prems(1) Suc by simp
    have before: "\<forall>i<j. etcdClient_Put env ((h @ [?c]) @ put_calls en (take i mms))
                     (mapper_key en (mms ! i)) (TQLString (mms ! i)) = None"
    proof (intro allI impI)
      fix i assume "i < j"
      then have "Suc i < k" using Suc by simp
      from Cons.prems(2) [rule_format, OF this]
      show "etcdClient_Put env ((h @ [?c]) @ put_calls en (take i mms))
              (mapper_key en (mms ! i)) (TQLString (mms ! i)) = None"
        by (simp add: put_calls_def mapper_key_def)
    qed
    have at: "etcdClient_Put env ((h @ [?c]) @ put_calls en (take j mms))
                (mapper_key en (mms ! j)) (TQLString (mms ! j)) = Some e"
      using Cons.prems(3) Suc by (simp add: put_calls_def mapper_key_def)
    from Cons.IH [OF j before at] first Suc show ?thesis
      by (simp add: put_calls_def mapper_key_def)
  qed
qed

lemma put_mappers_succeeds:
  assumes "\<forall>i<length mms. etcdClient_Put env (h @ put_calls en (take i mms))
                     (mapper_key en (mms ! i)) (TQLString (mms ! i)) = None"
  shows "put_mappers env en mms h = (None, h @ put_calls en mms)"
  using assms
proof (induction mms arbitrary: h)
  case Nil
  then show ?case by (simp add: put_calls_def)
next
  case (Cons mm mms)
  let ?c = "CEtcdPut (mapper_key en mm) (TQLString mm)"
  have first: "etcdClient_Put env h (mapper_key en mm) (TQLString mm) = None"
    using Cons.prems [rule_format, of 0] by (simp add: put_calls_def)
  have rest: "\<forall>i<length mms. etcdClient_Put env ((h @ [?c]) @ put_calls en (take i mms))
                     (mapper_key en (mms ! i)) (TQLString (mms ! i)) = None"
  proof (intro allI impI)
    fix i assume "i < length mms"
    then have "Suc i < length (mm # mms)" by simp
    from Cons.prems [rule_format, OF this]
    show "etcdClient_Put env ((h @ [?c]) @ put_calls en (take i mms))
            (mapper_key en (mms ! i)) (TQLString (mms ! i)) = None"
      by (simp add: put_calls_def mapper_key_def)
  qed
  from Cons.IH [OF rest] first show ?case
    by (simp add: put_calls_def mapper_key_def)
qed

lemma delete_mappers_fails:
  assumes "k < length mms"
      and "\<forall>i<k. etcdClient_Delete env (h @ remove_calls en (take i mms))
                     (mapper_key en (mms ! i)) False = None"
      and "etcdClient_Delete env (h @ remove_calls en (take k mms))
             (mapper_key en (mms ! k)) False = Some e"
  shows "delete_mappers env en mms h = (Some e, h @ remove_calls en (take (Suc k) mms))"
  using assms
proof (induction mms arbitrary: k h)
  case Nil
  then show ?case by simp
next
  case (Cons mm mms)
  show ?case
  proof (cases k)
    case 0
    with Cons.prems(3) show ?thesis
      by (simp add: remove_calls_def mapper_key_def)
  next
    case (Suc j)
    let ?c = "CEtcdDelete (mapper_key en mm) False"
    have first: "etcdClient_Delete env h (mapper_key en mm) False = None"
      using Cons.prems(2) [rule_format, of 0] Suc by (simp add: remove_calls_def)
    have j: "j < length mms" using Cons.prems(1) Suc by simp
    have before: "\<forall>i<j. etcdClient_Delete env ((h @ [?c]) @ remove_calls en (take i mms))
                     (mapper_key en (mms ! i)) False = None"
    proof (intro allI impI)
      fix i assume "i < j"
      then have "Suc i < k" using Suc by simp
      from Cons.prems(2) [rule_format, OF this]
      show "etcdClient_Delete env ((h @ [?c]) @ remove_calls en (take i mms))
              (mapper_key en (mms ! i)) False = None"
        by (simp add: remove_calls_def mapper_key_def)
    qed
    have at: "etcdClient_Delete env ((h @ [?c]) @ remove_calls en (take j mms))
                (mapper_key en (mms ! j)) False = Some e"
      using Cons.prems(3) Suc by (simp add: remove_calls_def mapper_key_def)
    from Cons.IH [OF j before at] first Suc show ?thesis
      by (simp add: remove_calls_def mapper_key_def)
  qed
qed

lemma delete_mappers_succeeds:
  assumes "\<forall>i<length mms. etcdClient_Delete env (h @ remove_calls en (take i mms))
                     (mapper_key en (mms ! i)) False = None"
  shows "delete_mappers env en mms h = (None, h @ remove_calls en mms)"
  using assms
proof (induction mms arbitrary: h)
  case Nil
  then show ?case by (simp add: remove_calls_def)
next
  case (Cons mm mms)
  let ?c = "CEtcdDelete (mapper_key en mm) False"
  have first: "etcdClient_Delete env h (mapper_key en mm) False = None"
    using Cons.prems [rule_format, of 0] by (simp add: remove_calls_def)
  have rest: "\<forall>i<length mms. etcdClient_Delete env ((h @ [?c]) @ remove_calls en (take i mms))
                     (mapper_key en (mms ! i)) False = None"
  proof (intro allI impI)
    fix i assume "i < length mms"
    then have "Suc i < length (mm # mms)" by simp
    from Cons.prems [rule_format, OF this]
    show "etcdClient_Delete env ((h @ [?c]) @ remove_calls en (take i mms))
            (mapper_key en (mms ! i)) False = None"
      by (simp add: remove_calls_def mapper_key_def)
  qed
  from Cons.IH [OF rest] first show ?case
    by (simp add: remove_calls_def mapper_key_def)
qed

lemma no_runtime_in_registry_calls:
  "filter runtime_call (put_calls en mms) = []" "filter runtime_call (remove_calls en mms) = []"
  by (simp_all add: put_calls_def remove_calls_def filter_map comp_def)

lemma getEntityFromState_history:
  "snd (getEntityFromState env en h) = h @ [CGetState EntityStateName (ID en)]"
  by (simp add: getEntityFromState_def Let_def split: prod.splits option.splits)

lemma AppendMapper_fails:
  assumes "snd (daprClient_GetState env h EntityStateName (ID en)) = None"
      and "k < length (Mappers en)"
      and "\<forall>i<k. put_reply env en h i = None"
      and "put_reply env en h k = Some e"
  shows "AppendMapper env en h =
           (Returns None (Some (Wrapped e ''append mapper'')),
            h @ [CGetState EntityStateName (ID en)] @ put_calls en (take (Suc k) (Mappers en)))"
proof -
  let ?h1 = "h @ [CGetState EntityStateName (ID en)]"
  have "put_mappers env en (Mappers en) ?h1 =
          (Some e, ?h1 @ put_calls en (take (Suc k) (Mappers en)))"
    using assms(2-4)
    by (intro put_mappers_fails) (simp_all add: put_reply_def mapper_key_def)
  moreover obtain data where "daprClient_GetState env h EntityStateName (ID en) = (data, None)"
    using assms(1) by (cases "daprClient_GetState env h EntityStateName (ID en)") simp
  ultimately show ?thesis
    by (simp add: AppendMapper_def Let_def)
qed

lemma AppendMapper_loop_done:
  assumes "snd (daprClient_GetState env h EntityStateName (ID en)) = None"
      and "\<forall>i<length (Mappers en). put_reply env en h i = None"
  shows "take (length h + length (Mappers en) + 2) (snd (AppendMapper env en h)) =
           h @ [CGetState EntityStateName (ID en)] @ put_calls en (Mappers en) @ [CAppendMapper en]"
proof -
  let ?h1 = "h @ [CGetState EntityStateName (ID en)]"
  have "put_mappers env en (Mappers en) ?h1 = (None, ?h1 @ put_calls en (Mappers en))"
    using assms(2)
    by (intro put_mappers_succeeds) (simp_all add: put_reply_def mapper_key_def)
  moreover obtain data where "daprClient_GetState env h EntityStateName (ID en) = (data, None)"
    using assms(1) by (cases "daprClient_GetState env h EntityStateName (ID en)") simp
  ultimately show ?thesis
    by (simp add: AppendMapper_def Let_def split_beta getEntityFromState_history put_calls_def
          split: option.splits)
qed

lemma RemoveMapper_fails:
  assumes "snd (daprClient_GetState env h EntityStateName (ID en)) = None"
      and "k < length (Mappers en)"
      and "\<forall>i<k. remove_reply env en h i = None"
      and "remove_reply env en h k = Some e"
  shows "RemoveMapper env en h =
           (Returns None (Some (Wrapped e ''append mapper'')),
            h @ [CGetState EntityStateName (ID en)] @ remove_calls en (take (Suc k) (Mappers en)))"
proof -
  let ?h1 = "h @ [CGetState EntityStateName (ID en)]"
  have "delete_mappers env en (Mappers en) ?h1 =
          (Some e, ?h1 @ remove_calls en (take (Suc k) (Mappers en)))"
    using assms(2-4)
    by (intro delete_mappers_fails) (simp_all add: remove_reply_def mapper_key_def)
  moreover obtain data where "daprClient_GetState env h EntityStateName (ID en) = (data, None)"
    using assms(1) by (cases "daprClient_GetState env h EntityStateName (ID en)") simp
  ultimately show ?thesis
    by (simp add: RemoveMapper_def Let_def)
qed

lemma RemoveMapper_loop_done:
  assumes "snd (daprClient_GetState env h EntityStateName (ID en)) = None"
      and "\<forall>i<length (Mappers en). remove_reply env en h i = None"
  shows "take (length h + length (Mappers en) + 2) (snd (RemoveMapper env en h)) =
           h @ [CGetState EntityStateName (ID en)] @ remove_calls en (Mappers en) @ [CRemoveMapper en]"
proof -
  let ?h1 = "h @ [CGetState EntityStateName (ID en)]"
  have "delete_mappers env en (Mappers en) ?h1 = (None, ?h1 @ remove_calls en (Mappers en))"
    using assms(2)
    by (intro delete_mappers_succeeds) (simp_all add: remove_reply_def mapper_key_def)
  moreover obtain data where "daprClient_GetState env h EntityStateName (ID en) = (data, None)"
    using assms(1) by (cases "daprClient_GetState env h EntityStateName (ID en)") simp
  ultimately show ?thesis
    by (simp add: RemoveMapper_def Let_def split_beta getEntityFromState_history remove_calls_def
          split: option.splits)
qed

text \<open>
  C6. After the first read of \<open>AppendMapper\<close> (resp. \<open>RemoveMapper\<close>) has passed,
  the registry is called once per mapper in the order of the list, with the key
  \<open>TQLEtcdPrefix + ID + Name\<close> and, for an append, the value \<open>TQLString\<close>. If the
  call for mapper \<open>k\<close> is the first to fail, the history holds the calls for the mappers
  up to \<open>k\<close> and nothing else: no delete undoes an earlier write and the runtime is
  not called; the error is wrapped with \<open>append mapper\<close> (in both operations). If no
  call fails, the runtime is called next, after the call for the last mapper.
\<close>

theorem mapper_registry_calls:
  "(snd (daprClient_GetState env h EntityStateName (ID en)) = None \<and> k < length (Mappers en) \<and>
      (\<forall>i<k. put_reply env en h i = None) \<and> put_reply env en h k = Some e \<longrightarrow>
    AppendMapper env en h =
      (Returns None (Some (Wrapped e ''append mapper'')),
       h @ [CGetState EntityStateName (ID en)] @ put_calls en (take (Suc k) (Mappers en))) \<and>
    filter runtime_call (drop (length h) (snd (AppendMapper env en h))) = [])
   \<and> (snd (daprClient_GetState env h EntityStateName (ID en)) = None \<and>
      (\<forall>i<length (Mappers en). put_reply env en h i = None) \<longrightarrow>
    take (length h + length (Mappers en) + 2) (snd (AppendMapper env en h)) =
      h @ [CGetState EntityStateName (ID en)] @ put_calls en (Mappers en) @ [CAppendMapper en])
   \<and> (snd (daprClient_GetState env h EntityStateName (ID en)) = None \<and> k < length (Mappers en) \<and>
      (\<forall>i<k. remove_reply env en h i = None) \<and> remove_reply env en h k = Some e \<longrightarrow>
    RemoveMapper env en h =
      (Returns None (Some (Wrapped e ''append mapper'')),
       h @ [CGetState EntityStateName (ID en)] @ remove_calls en (take (Suc k) (Mappers en))) \<and>
    filter runtime_call (drop (length h) (snd (RemoveMapper env en h))) = [])
   \<and> (snd (daprClient_GetState env h EntityStateName (ID en)) = None \<and>
      (\<forall>i<length (Mappers en). remove_reply env en h i = None) \<longrightarrow>
    take (length h + length (Mappers en) + 2) (snd (RemoveMapper env en h)) =
      h @ [CGetState EntityStateName (ID en)] @ remove_calls en (Mappers en) @ [CRemoveMapper en])"
proof (intro conjI impI)
  assume a: "snd (daprClient_GetState env h EntityStateName (ID en)) = None \<and>
      k < length (Mappers en) \<and> (\<forall>i<k. put_reply env en h i = None) \<and>
      put_reply env en h k = Some e"
  then show f: "AppendMapper env en h =
      (Returns None (Some (Wrapped e ''append mapper'')),
       h @ [CGetState EntityStateName (ID en)] @ put_calls en (take (Suc k) (Mappers en)))"
    by (intro AppendMapper_fails) simp_all
  show "filter runtime_call (drop (length h) (snd (AppendMapper env en h))) = []"
    by (simp add: f no_runtime_in_registry_calls)
next
  assume "snd (daprClient_GetState env h EntityStateName (ID en)) = None \<and>
      (\<forall>i<length (Mappers en). put_reply env en h i = None)"
  then show "take (length h + length (Mappers en) + 2) (snd (AppendMapper env en h)) =
      h @ [CGetState EntityStateName (ID en)] @ put_calls en (Mappers en) @ [CAppendMapper en]"
    by (intro AppendMapper_loop_done) simp_all
next
  assume a: "snd (daprClient_GetState env h EntityStateName (ID en)) = None \<and>
      k < length (Mappers en) \<and> (\<forall>i<k. remove_reply env en h i = None) \<and>
      remove_reply env en h k = Some e"
  then show f: "RemoveMapper env en h =
      (Returns None (Some (Wrapped e ''append mapper'')),
       h @ [CGetState EntityStateName (ID en)] @ remove_calls en (take (Suc k) (Mappers en)))"
    by (intro RemoveMapper_fails) simp_all
  show "filter runtime_call (drop (length h) (snd (RemoveMapper env en h))) = []"
    by (simp add: f no_runtime_in_registry_calls)
next
  assume "snd (daprClient_GetState env h EntityStateName (ID en)) = None \<and>
      (\<forall>i<length (Mappers en). remove_reply env en h i = None)"
  then show "take (length h + length (Mappers en) + 2) (snd (RemoveMapper env en h)) =
      h @ [CGetState EntityStateName (ID en)] @ remove_calls en (Mappers en) @ [CRemoveMapper en]"
    by (intro RemoveMapper_loop_done) simp_all
qed

lemmas flaky_eval = flaky_registry_def dev1_rules_def put_reply_def remove_reply_def
  put_calls_def remove_calls_def mem_eval

theorem mapper_registry_calls_witness:
  "put_reply flaky_registry dev1_rules [] 0 = None
   \<and> put_reply flaky_registry dev1_rules [] 1 = Some (Cause ''registry unavailable'')
   \<and> AppendMapper flaky_registry dev1_rules [] =
      (Returns None (Some (Wrapped (Cause ''registry unavailable'') ''append mapper'')),
       [CGetState ''core-state'' ''dev-1'',
        CEtcdPut ''core.tql.dev-1m1'' ''insert into dev-1 select dev-2.temp'',
        CEtcdPut ''core.tql.dev-1m2'' ''insert into dev-1 select dev-3.temp''])
   \<and> take 4 (snd (AppendMapper mem_env dev1_rules [])) =
       [CGetState ''core-state'' ''dev-1'',
        CEtcdPut ''core.tql.dev-1m1'' ''insert into dev-1 select dev-2.temp'',
        CEtcdPut ''core.tql.dev-1m2'' ''insert into dev-1 select dev-3.temp'',
        CAppendMapper dev1_rules]
   \<and> RemoveMapper flaky_registry dev1_rules [] =
      (Returns None (Some (Wrapped (Cause ''registry unavailable'') ''append mapper'')),
       [CGetState ''core-state'' ''dev-1'',
        CEtcdDelete ''core.tql.dev-1m1'' False,
        CEtcdDelete ''core.tql.dev-1m2'' False])
   \<and> take 4 (snd (RemoveMapper mem_env dev1_rules [])) =
       [CGetState ''core-state'' ''dev-1'',
        CEtcdDelete ''core.tql.dev-1m1'' False,
        CEtcdDelete ''core.tql.dev-1m2'' False,
        CRemoveMapper dev1_rules]"
proof -
  note flaky = mapper_registry_calls [of flaky_registry "[]" dev1_rules 1 "Cause ''registry unavailable''"]
  note plain = mapper_registry_calls [of mem_env "[]" dev1_rules 0 "Cause ''registry unavailable''"]
  have p0: "put_reply flaky_registry dev1_rules [] 0 = None"
    and p1: "put_reply flaky_registry dev1_rules [] 1 = Some (Cause ''registry unavailable'')"
    and r0: "remove_reply flaky_registry dev1_rules [] 0 = None"
    and r1: "remove_reply flaky_registry dev1_rules [] 1 = Some (Cause ''registry unavailable'')"
    by (simp_all add: flaky_eval)
  have g: "snd (daprClient_GetState flaky_registry [] EntityStateName (ID dev1_rules)) = None"
          "snd (daprClient_GetState mem_env [] EntityStateName (ID dev1_rules)) = None"
    by (simp_all add: flaky_eval)
  have len: "length (Mappers dev1_rules) = 2" by (simp add: dev1_rules_def)
  have ok: "\<forall>i<length (Mappers dev1_rules). put_reply mem_env dev1_rules [] i = None"
           "\<forall>i<length (Mappers dev1_rules). remove_reply mem_env dev1_rules [] i = None"
    by (simp_all add: put_reply_def remove_reply_def mem_env_sel)
  have a: "AppendMapper flaky_registry dev1_rules [] =
      (Returns None (Some (Wrapped (Cause ''registry unavailable'') ''append mapper'')),
       [CGetState EntityStateName (ID dev1_rules)] @ put_calls dev1_rules (take (Suc 1) (Mappers dev1_rules)))"
    using flaky p0 p1 g len by simp
  have b: "RemoveMapper flaky_registry dev1_rules [] =
      (Returns None (Some (Wrapped (Cause ''registry unavailable'') ''append mapper'')),
       [CGetState EntityStateName (ID dev1_rules)] @ remove_calls dev1_rules (take (Suc 1) (Mappers dev1_rules)))"
    using flaky r0 r1 g len by simp
  have c: "take 4 (snd (AppendMapper mem_env dev1_rules [])) =
       [CGetState EntityStateName (ID dev1_rules)] @ put_calls dev1_rules (Mappers dev1_rules) @ [CAppendMapper dev1_rules]"
    using plain ok g len by (simp add: eval_nat_numeral)
  have d: "take 4 (snd (RemoveMapper mem_env dev1_rules [])) =
       [CGetState EntityStateName (ID dev1_rules)] @ remove_calls dev1_rules (Mappers dev1_rules) @ [CRemoveMapper dev1_rules]"
    using plain ok g len by (simp add: eval_nat_numeral)
  show ?thesis
    unfolding a b c d p0 p1
    by (simp add: put_calls_def remove_calls_def dev1_rules_def mem_eval)
qed

subsection \<open>Mapper pre-check, mutations, identifier failure and results\<close>

text \<open>
  C5. \<open>AppendMapper\<close> and \<open>RemoveMapper\<close> on the in-memory store when \<open>dev-1\<close>
  is not held: the first read returns an item with an empty value and no error (what
  \<open>getEntityFromState\<close> reports as \<open>ErrEntityNotFound\<close>), the operation goes on,
  calls the registry for both mappers and the runtime, and only the final read fails.
\<close>

theorem mapper_precheck_ignores_item:
  "daprClient_GetState mem_env [] ''core-state'' ''dev-1'' =
     (Some \<lparr>Key = ''dev-1'', Value = [], Etag = ''''\<rparr>, None)
   \<and> AppendMapper mem_env dev1_rules [] =
     (Returns None (Some (Wrapped ErrEntityNotFound ''append mapper'')),
      [CGetState ''core-state'' ''dev-1'',
       CEtcdPut ''core.tql.dev-1m1'' ''insert into dev-1 select dev-2.temp'',
       CEtcdPut ''core.tql.dev-1m2'' ''insert into dev-1 select dev-3.temp'',
       CAppendMapper dev1_rules,
       CGetState ''core-state'' ''dev-1''])
   \<and> RemoveMapper mem_env dev1_rules [] =
     (Returns None (Some (Wrapped ErrEntityNotFound ''remove mapper'')),
      [CGetState ''core-state'' ''dev-1'',
       CEtcdDelete ''core.tql.dev-1m1'' False,
       CEtcdDelete ''core.tql.dev-1m2'' False,
       CRemoveMapper dev1_rules,
       CGetState ''core-state'' ''dev-1''])"
  by (simp add: AppendMapper_def RemoveMapper_def mapper_key_def mem_eval dev1_rules_def)

text \<open>
  What the first read of \<open>AppendMapper\<close> and \<open>RemoveMapper\<close> does stop: a read
  that returns an error ends the operation before any registry call.
\<close>

lemma mapper_precheck_read_error:
  assumes "snd (daprClient_GetState env h EntityStateName (ID en)) = Some e"
  shows "AppendMapper env en h =
           (Returns None (Some (Wrapped e ''get state'')), h @ [CGetState EntityStateName (ID en)])"
    and "RemoveMapper env en h =
           (Returns None (Some (Wrapped e ''get state'')), h @ [CGetState EntityStateName (ID en)])"
  using assms
  by (cases "daprClient_GetState env h EntityStateName (ID en)";
      simp add: AppendMapper_def RemoveMapper_def Let_def)+

lemma decode_dev1:
  "char_of (100::nat) = CHR ''d''" "char_of (101::nat) = CHR ''e''" "char_of (118::nat) = CHR ''v''"
  "char_of (45::nat) = CHR ''-''" "char_of (49::nat) = CHR ''1''"
  by code_simp+

text \<open>
  C7. \<open>SetProperties\<close>, \<open>SetConfigs\<close> and \<open>PatchEntity\<close> call the runtime
  first. If the runtime fails, the error is returned wrapped and the history holds the
  runtime call only: the store is not read. If it succeeds, the next and last call is
  \<open>GetState\<close> for the entity's \<open>ID\<close>, and the operation returns what
  \<open>DecodeBase\<close> makes of the value of the item that \<open>GetState\<close> returned; an
  error of the read or of the decoder is returned wrapped twice, with no snapshot. (An
  item without a value is the subject of C10.)
\<close>

theorem mutation_then_reread:
  "(stateManager_SetProperties env h en = Some e \<longrightarrow>
      SetProperties env en h =
        (Returns None (Some (Wrapped e ''set entity properties'')), h @ [CSetProperties en]))
   \<and> (stateManager_SetProperties env h en = None \<and>
       daprClient_GetState env (h @ [CSetProperties en]) EntityStateName (ID en) = (Some item, None) \<and>
       Value item \<noteq> [] \<and> DecodeBase env (Value item) = (b, None) \<longrightarrow>
      SetProperties env en h =
        (Returns b None, h @ [CSetProperties en, CGetState EntityStateName (ID en)]))
   \<and> (stateManager_SetProperties env h en = None \<and>
       daprClient_GetState env (h @ [CSetProperties en]) EntityStateName (ID en) = (Some item, None) \<and>
       Value item \<noteq> [] \<and> DecodeBase env (Value item) = (b, Some d) \<longrightarrow>
      SetProperties env en h =
        (Returns None (Some (Wrapped (Wrapped d ''get entity properties'') ''set entity properties'')),
         h @ [CSetProperties en, CGetState EntityStateName (ID en)]))
   \<and> (stateManager_SetProperties env h en = None \<and>
       snd (daprClient_GetState env (h @ [CSetProperties en]) EntityStateName (ID en)) = Some r \<longrightarrow>
      SetProperties env en h =
        (Returns None (Some (Wrapped (Wrapped r ''get entity properties'') ''set entity properties'')),
         h @ [CSetProperties en, CGetState EntityStateName (ID en)]))
   \<and> (stateManager_SetConfigs env h en = Some e \<longrightarrow>
      SetConfigs env en h =
        (Returns None (Some (Wrapped e ''set entity configs'')), h @ [CSetConfigs en]))
   \<and> (stateManager_SetConfigs env h en = None \<and>
       daprClient_GetState env (h @ [CSetConfigs en]) EntityStateName (ID en) = (Some item, None) \<and>
       Value item \<noteq> [] \<and> DecodeBase env (Value item) = (b, None) \<longrightarrow>
      SetConfigs env en h =
        (Returns b None, h @ [CSetConfigs en, CGetState EntityStateName (ID en)]))
   \<and> (stateManager_SetConfigs env h en = None \<and>
       daprClient_GetState env (h @ [CSetConfigs en]) EntityStateName (ID en) = (Some item, None) \<and>
       Value item \<noteq> [] \<and> DecodeBase env (Value item) = (b, Some d) \<longrightarrow>
      SetConfigs env en h =
        (Returns None (Some (Wrapped (Wrapped d ''get entity properties'') ''set entity configs'')),
         h @ [CSetConfigs en, CGetState EntityStateName (ID en)]))
   \<and> (stateManager_SetConfigs env h en = None \<and>
       snd (daprClient_GetState env (h @ [CSetConfigs en]) EntityStateName (ID en)) = Some r \<longrightarrow>
      SetConfigs env en h =
        (Returns None (Some (Wrapped (Wrapped r ''get entity properties'') ''set entity configs'')),
         h @ [CSetConfigs en, CGetState EntityStateName (ID en)]))
   \<and> (stateManager_PatchEntity env h en pd = Some e \<longrightarrow>
      PatchEntity env en pd h =
        (Returns None (Some (Wrapped e ''patch entity properties'')), h @ [CPatchEntity en pd]))
   \<and> (stateManager_PatchEntity env h en pd = None \<and>
       daprClient_GetState env (h @ [CPatchEntity en pd]) EntityStateName (ID en) = (Some item, None) \<and>
       Value item \<noteq> [] \<and> DecodeBase env (Value item) = (b, None) \<longrightarrow>
      PatchEntity env en pd h =
        (Returns b None, h @ [CPatchEntity en pd, CGetState EntityStateName (ID en)]))
   \<and> (stateManager_PatchEntity env h en pd = None \<and>
       daprClient_GetState env (h @ [CPatchEntity en pd]) EntityStateName (ID en) = (Some item, None) \<and>
       Value item \<noteq> [] \<and> DecodeBase env (Value item) = (b, Some d) \<longrightarrow>
      PatchEntity env en pd h =
        (Returns None (Some (Wrapped (Wrapped d ''get entity properties'') ''patch entity properties'')),
         h @ [CPatchEntity en pd, CGetState EntityStateName (ID en)]))
   \<and> (stateManager_PatchEntity env h en pd = None \<and>
       snd (daprClient_GetState env (h @ [CPatchEntity en pd]) EntityStateName (ID en)) = Some r \<longrightarrow>
      PatchEntity env en pd h =
        (Returns None (Some (Wrapped (Wrapped r ''get entity properties'') ''patch entity properties'')),
         h @ [CPatchEntity en pd, CGetState EntityStateName (ID en)]))"
proof -
  have ok: "getEntityFromState env en k = ((b, None), k @ [CGetState EntityStateName (ID en)])"
    if "daprClient_GetState env k EntityStateName (ID en) = (Some item, None)"
      and "Value item \<noteq> []" and "DecodeBase env (Value item) = (b, None)" for k
    using that by (simp add: getEntityFromState_def Let_def)
  have undecodable: "getEntityFromState env en k =
      ((None, Some (Wrapped d ''get entity properties'')), k @ [CGetState EntityStateName (ID en)])"
    if "daprClient_GetState env k EntityStateName (ID en) = (Some item, None)"
      and "Value item \<noteq> []" and "DecodeBase env (Value item) = (b, Some d)" for k
    using that by (simp add: getEntityFromState_def Let_def)
  have unread: "getEntityFromState env en k =
      ((None, Some (Wrapped r ''get entity properties'')), k @ [CGetState EntityStateName (ID en)])"
    if "snd (daprClient_GetState env k EntityStateName (ID en)) = Some r" for k
    using that
    by (cases "daprClient_GetState env k EntityStateName (ID en)")
       (simp add: getEntityFromState_def Let_def split: option.splits)
  show ?thesis
    by (simp add: SetProperties_def SetConfigs_def PatchEntity_def Let_def ok undecodable unread)
qed

theorem mutation_then_reread_witness:
  "stateManager_SetProperties no_mutation stored_dev1 dev1 = Some (Cause ''runtime unavailable'')
   \<and> SetProperties no_mutation dev1 stored_dev1 =
       (Returns None (Some (Wrapped (Cause ''runtime unavailable'') ''set entity properties'')),
        stored_dev1 @ [CSetProperties dev1])
   \<and> SetConfigs no_mutation dev1 stored_dev1 =
       (Returns None (Some (Wrapped (Cause ''runtime unavailable'') ''set entity configs'')),
        stored_dev1 @ [CSetConfigs dev1])
   \<and> PatchEntity no_mutation dev1 [PatchData ''temp'' ''replace'' [50]] stored_dev1 =
       (Returns None (Some (Wrapped (Cause ''runtime unavailable'') ''patch entity properties'')),
        stored_dev1 @ [CPatchEntity dev1 [PatchData ''temp'' ''replace'' [50]]])
   \<and> daprClient_GetState mem_env (stored_dev1 @ [CSetProperties dev1]) EntityStateName (ID dev1) =
       (Some stored_item, None)
   \<and> DecodeBase mem_env (Value stored_item) = (Some decoded_dev1, None)
   \<and> SetProperties mem_env dev1 stored_dev1 =
       (Returns (Some decoded_dev1) None,
        stored_dev1 @ [CSetProperties dev1, CGetState ''core-state'' ''dev-1''])
   \<and> SetConfigs mem_env dev1 stored_dev1 =
       (Returns (Some decoded_dev1) None,
        stored_dev1 @ [CSetConfigs dev1, CGetState ''core-state'' ''dev-1''])
   \<and> PatchEntity mem_env dev1 [PatchData ''temp'' ''replace'' [50]] stored_dev1 =
       (Returns (Some decoded_dev1) None,
        stored_dev1 @ [CPatchEntity dev1 [PatchData ''temp'' ''replace'' [50]],
                       CGetState ''core-state'' ''dev-1''])
   \<and> SetProperties bad_codec dev1 stored_dev1 =
       (Returns None (Some (Wrapped (Wrapped (Cause ''malformed snapshot'') ''get entity properties'')
                              ''set entity properties'')),
        stored_dev1 @ [CSetProperties dev1, CGetState ''core-state'' ''dev-1''])
   \<and> SetConfigs no_store_read dev1 stored_dev1 =
       (Returns None (Some (Wrapped (Wrapped (Cause ''store unavailable'') ''get entity properties'')
                              ''set entity configs'')),
        stored_dev1 @ [CSetConfigs dev1, CGetState ''core-state'' ''dev-1''])"
proof -
  let ?pd = "[PatchData ''temp'' ''replace'' [50]]"
  note refused = mutation_then_reread
    [where env = no_mutation and h = stored_dev1 and en = dev1 and pd = ?pd
       and e = "Cause ''runtime unavailable''"]
  note applied = mutation_then_reread
    [where env = mem_env and h = stored_dev1 and en = dev1 and pd = ?pd
       and item = stored_item and b = "Some decoded_dev1"]
  note undecodable = mutation_then_reread
    [where env = bad_codec and h = stored_dev1 and en = dev1 and pd = ?pd
       and item = stored_item and b = None and d = "Cause ''malformed snapshot''"]
  note unread = mutation_then_reread
    [where env = no_store_read and h = stored_dev1 and en = dev1 and pd = ?pd
       and r = "Cause ''store unavailable''"]
  have item: "daprClient_GetState mem_env (stored_dev1 @ [c]) EntityStateName (ID dev1) =
                (Some stored_item, None)"
             "daprClient_GetState bad_codec (stored_dev1 @ [c]) EntityStateName (ID dev1) =
                (Some stored_item, None)"
    if "store_step (store_of stored_dev1) c = store_of stored_dev1" for c
    using that
    by (simp_all add: bad_codec_def mem_env_sel stored_item_def stored_dev1_def dev1_def
          EntityStateName_def store_of_def store_step_def)
  have c: "store_step (store_of stored_dev1) (CSetProperties dev1) = store_of stored_dev1"
          "store_step (store_of stored_dev1) (CSetConfigs dev1) = store_of stored_dev1"
          "store_step (store_of stored_dev1) (CPatchEntity dev1 ?pd) = store_of stored_dev1"
    by (simp_all add: store_step_def)
  have dec: "DecodeBase mem_env (Value stored_item) = (Some decoded_dev1, None)"
            "DecodeBase bad_codec (Value stored_item) = (None, Some (Cause ''malformed snapshot''))"
            "Value stored_item \<noteq> []"
    by (simp_all add: bad_codec_def mem_env_sel stored_item_def decoded_dev1_def decode_dev1)
  have rt: "stateManager_SetProperties no_mutation k b = Some (Cause ''runtime unavailable'')"
           "stateManager_SetConfigs no_mutation k b = Some (Cause ''runtime unavailable'')"
           "stateManager_PatchEntity no_mutation k b p = Some (Cause ''runtime unavailable'')"
           "stateManager_SetProperties mem_env k b = None"
           "stateManager_SetConfigs mem_env k b = None"
           "stateManager_PatchEntity mem_env k b p = None"
           "stateManager_SetProperties bad_codec k b = None"
           "stateManager_SetConfigs no_store_read k b = None"
           "snd (daprClient_GetState no_store_read k s i) = Some (Cause ''store unavailable'')"
    for k b p s i
    by (simp_all add: no_mutation_def bad_codec_def no_store_read_def mem_env_sel)
  have id: "ID dev1 = ''dev-1''" by (simp add: dev1_def)
  show ?thesis
    using refused applied undecodable unread item(1) [OF c(1)] item(1) [OF c(2)] item(1) [OF c(3)]
      item(2) [OF c(1)] dec rt
    by (simp add: id EntityStateName_def)
qed

text \<open>
  C8, as stated, fails: with a random source that returns an error, \<open>uuid\<close> returns the
  empty string and no error, and a create call with an empty \<open>ID\<close> probes the store
  under the empty key and fails with \<open>ErrEntityNotFound\<close>, not with an error about the
  identifier.
\<close>

theorem uuid_read_error_counterexample:
  "snd (rand_Read no_entropy [] 16) = Some (Cause ''entropy source unavailable'')
   \<and> uuid no_entropy [] = ('''', [CRandRead 16])
   \<and> CreateEntity no_entropy (dev1\<lparr>ID := ''''\<rparr>) [] =
       (Returns None (Some ErrEntityNotFound), [CRandRead 16, CGetState ''core-state'' ''''])"
  by (simp add: no_entropy_def uuid_def CreateEntity_def mem_eval)

text \<open>
  C8, amended. When the random source fails, identifier generation returns the empty
  identifier and reports no error; a create call with an empty \<open>ID\<close> then carries on
  with the empty \<open>ID\<close>: its next call is the probe of the store under the empty key,
  and any snapshot it returns has the empty \<open>ID\<close>.
\<close>

theorem uuid_read_error:
  "snd (rand_Read env h 16) = Some e \<longrightarrow>
     uuid env h = ('''', h @ [CRandRead 16])
     \<and> (ID base = '''' \<longrightarrow>
          take (length h + 2) (snd (CreateEntity env base h)) =
            h @ [CRandRead 16, CGetState EntityStateName '''']
          \<and> (\<forall>b e'. fst (CreateEntity env base h) = Returns (Some b) e' \<longrightarrow> ID b = ''''))"
proof (intro impI conjI allI)
  assume r: "snd (rand_Read env h 16) = Some e"
  then obtain bs where bs: "rand_Read env h 16 = (bs, Some e)"
    by (cases "rand_Read env h 16") simp
  then show u: "uuid env h = ('''', h @ [CRandRead 16])"
    by (simp add: uuid_def)
  assume i: "ID base = ''''"
  show "take (length h + 2) (snd (CreateEntity env base h)) =
            h @ [CRandRead 16, CGetState EntityStateName '''']"
    using i u
    by (simp add: CreateEntity_def Let_def split_beta getEntityFromState_history
          split: option.splits)
  fix b e'
  assume "fst (CreateEntity env base h) = Returns (Some b) e'"
  then show "ID b = ''''"
    using i u
    by (auto simp add: CreateEntity_def Let_def split: prod.splits option.splits if_splits)
qed

theorem uuid_read_error_witness:
  "snd (rand_Read no_entropy saved_dev1 16) = Some (Cause ''entropy source unavailable'')
   \<and> uuid no_entropy saved_dev1 = ('''', saved_dev1 @ [CRandRead 16])
   \<and> take 3 (snd (CreateEntity no_entropy (dev1\<lparr>ID := ''''\<rparr>) saved_dev1)) =
       saved_dev1 @ [CRandRead 16, CGetState ''core-state'' '''']
   \<and> CreateEntity no_entropy (dev1\<lparr>ID := ''''\<rparr>) [CSaveState ''core-state'' '''' [1]] =
       (Returns (Some (dev1\<lparr>ID := ''''\<rparr>)) None,
        [CSaveState ''core-state'' '''' [1], CRandRead 16, CGetState ''core-state'' '''',
         CSaveState ''core-state'' '''' [], CSendMsg '''' ''replace''])"
  using uuid_read_error [of no_entropy saved_dev1 "Cause ''entropy source unavailable''" "dev1\<lparr>ID := ''''\<rparr>"]
  by (simp add: no_entropy_def mem_eval eval_nat_numeral)
     (simp add: CreateEntity_def uuid_def mem_eval)

lemma reread_exclusive:
  assumes "\<forall>d. snd (DecodeBase env d) = None \<longrightarrow> fst (DecodeBase env d) \<noteq> None"
  shows "exclusive (Returns (fst (reread env en h)) (Wrap (snd (reread env en h)) msg))"
proof -
  have dec: "b \<noteq> None" if "DecodeBase env d = (b, None)" for d b
    using assms [rule_format, of d] that by simp
  show ?thesis
    by (auto simp add: reread_def getEntityFromState_def Let_def
          split: prod.splits option.splits dest: dec)
qed

lemma getEntityFromState_pair:
  "getEntityFromState env en k = (reread env en k, k @ [CGetState EntityStateName (ID en)])"
  using getEntityFromState_history [of env en k]
  by (simp add: reread_def prod_eq_iff)

lemma errors_Is_not_nil: "errors_Is err target \<Longrightarrow> \<exists>e. err = Some e"
  by (cases err) simp_all

lemma reread_never_both:
  "fst (reread env en h) = None \<or> snd (reread env en h) = None"
  by (auto simp add: reread_def getEntityFromState_def Let_def split: prod.splits option.splits)

lemma never_both_wrap:
  "b = None \<or> err = None \<Longrightarrow> never_both (Returns b (Wrap err msg))"
  by (cases b; cases err) simp_all

lemma exclusive_never_both: "exclusive r \<Longrightarrow> never_both r"
  by (cases r rule: exclusive.cases) simp_all

text \<open>
  C9, as stated, fails. With a decoder that returns no snapshot and no error,
  \<open>GetProperties\<close> returns neither a snapshot nor an error; with a teardown that does
  the same, so does \<open>DeleteEntity\<close>.
\<close>

theorem results_exclusive_counterexample:
  "GetProperties nil_decoder dev1 stored_dev1 =
     (Returns None None, stored_dev1 @ [CGetState ''core-state'' ''dev-1''])
   \<and> \<not> exclusive (fst (GetProperties nil_decoder dev1 stored_dev1))
   \<and> DeleteEntity nil_teardown dev1 stored_dev1 =
     (Returns None None,
      stored_dev1 @ [CDeleteStateMarchin dev1, CSearchDeleteByID ''dev-1'',
                     CDeleteState ''core-state'' ''dev-1'',
                     CEtcdDelete ''device.dev-1.subscription'' True])
   \<and> \<not> exclusive (fst (DeleteEntity nil_teardown dev1 stored_dev1))"
  by (simp add: GetProperties_def DeleteEntity_def nil_decoder_def nil_teardown_def stored_dev1_def
        mem_eval)

text \<open>
  C9, amended. No operation returns a snapshot together with an error. The result of
  \<open>CreateEntity\<close> is always exclusive (a snapshot and no error, or an error and no
  snapshot). The results of \<open>GetProperties\<close>, \<open>SetProperties\<close>, \<open>SetConfigs\<close>,
  \<open>PatchEntity\<close>, \<open>AppendMapper\<close> and \<open>RemoveMapper\<close> are exclusive when
  \<open>DecodeBase\<close> returns a snapshot whenever it returns no error, and the result of
  \<open>DeleteEntity\<close> is exclusive when the teardown returns a snapshot whenever it returns
  no error: these two snapshots are handed on unchecked.
\<close>

theorem results_exclusive:
  "never_both (fst (CreateEntity env en h)) \<and> never_both (fst (DeleteEntity env en h)) \<and>
   never_both (fst (GetProperties env en h)) \<and> never_both (fst (SetProperties env en h)) \<and>
   never_both (fst (SetConfigs env en h)) \<and> never_both (fst (PatchEntity env en pd h)) \<and>
   never_both (fst (AppendMapper env en h)) \<and> never_both (fst (RemoveMapper env en h))
   \<and> exclusive (fst (CreateEntity env en h))
   \<and> ((\<forall>d. snd (DecodeBase env d) = None \<longrightarrow> fst (DecodeBase env d) \<noteq> None) \<longrightarrow>
        exclusive (fst (GetProperties env en h)) \<and>
        exclusive (fst (SetProperties env en h)) \<and>
        exclusive (fst (SetConfigs env en h)) \<and>
        exclusive (fst (PatchEntity env en pd h)) \<and>
        exclusive (fst (AppendMapper env en h)) \<and>
        exclusive (fst (RemoveMapper env en h)))
   \<and> ((snd (teardown_reply env en h) = None \<longrightarrow> fst (teardown_reply env en h) \<noteq> None) \<longrightarrow>
        exclusive (fst (DeleteEntity env en h)))"
proof (intro conjI impI)
  note nb = never_both_wrap [OF reread_never_both]
  show c: "exclusive (fst (CreateEntity env en h))"
    by (auto simp add: CreateEntity_def Let_def split: prod.splits option.splits
          dest: errors_Is_not_nil)
  then show "never_both (fst (CreateEntity env en h))" by (rule exclusive_never_both)
  show "never_both (fst (DeleteEntity env en h))"
    by (simp add: DeleteEntity_def Let_def split: prod.splits option.splits)
  show "never_both (fst (GetProperties env en h))"
    using nb [of env en h] by (simp add: GetProperties_def getEntityFromState_pair split_beta)
  show "never_both (fst (SetProperties env en h))"
    using nb [of env en "h @ [CSetProperties en]"]
    by (simp add: SetProperties_def Let_def getEntityFromState_pair split_beta split: option.splits)
  show "never_both (fst (SetConfigs env en h))"
    using nb [of env en "h @ [CSetConfigs en]"]
    by (simp add: SetConfigs_def Let_def getEntityFromState_pair split_beta split: option.splits)
  show "never_both (fst (PatchEntity env en pd h))"
    using nb [of env en "h @ [CPatchEntity en pd]"]
    by (simp add: PatchEntity_def Let_def getEntityFromState_pair split_beta split: option.splits)
  show "never_both (fst (AppendMapper env en h))"
    using nb
    by (simp add: AppendMapper_def Let_def getEntityFromState_pair split_beta
          split: option.splits)
  show "never_both (fst (RemoveMapper env en h))"
    using nb
    by (simp add: RemoveMapper_def Let_def getEntityFromState_pair split_beta
          split: option.splits)
next
  assume rt: "snd (teardown_reply env en h) = None \<longrightarrow> fst (teardown_reply env en h) \<noteq> None"
  show "exclusive (fst (DeleteEntity env en h))"
  proof (cases "stateManager_DeleteStateMarchin env h en")
    case (Pair b err)
    show ?thesis
    proof (cases err)
      case (Some e)
      with Pair show ?thesis by (simp add: DeleteEntity_def)
    next
      case None
      with rt Pair have "b \<noteq> None" by (simp add: teardown_reply_def)
      then obtain b' where "b = Some b'" by blast
      with Pair None show ?thesis
        by (simp add: DeleteEntity_def Let_def split: option.splits)
    qed
  qed
next
  assume dec: "\<forall>d. snd (DecodeBase env d) = None \<longrightarrow> fst (DecodeBase env d) \<noteq> None"
  note rr = reread_exclusive [OF dec]
  show "exclusive (fst (GetProperties env en h))"
    using rr [of en h] by (simp add: GetProperties_def getEntityFromState_pair split_beta)
  show "exclusive (fst (SetProperties env en h))"
    using rr [of en "h @ [CSetProperties en]"]
    by (simp add: SetProperties_def Let_def getEntityFromState_pair split_beta split: option.splits)
  show "exclusive (fst (SetConfigs env en h))"
    using rr [of en "h @ [CSetConfigs en]"]
    by (simp add: SetConfigs_def Let_def getEntityFromState_pair split_beta split: option.splits)
  show "exclusive (fst (PatchEntity env en pd h))"
    using rr [of en "h @ [CPatchEntity en pd]"]
    by (simp add: PatchEntity_def Let_def getEntityFromState_pair split_beta split: option.splits)
  show "exclusive (fst (AppendMapper env en h))"
    using rr
    by (simp add: AppendMapper_def Let_def getEntityFromState_pair split_beta
          split: option.splits)
  show "exclusive (fst (RemoveMapper env en h))"
    using rr
    by (simp add: RemoveMapper_def Let_def getEntityFromState_pair split_beta
          split: option.splits)
qed

theorem results_exclusive_witness:
  "fst (GetProperties mem_env dev1 stored_dev1) = Returns (Some decoded_dev1) None
   \<and> fst (GetProperties mem_env dev1 []) =
       Returns None (Some (Wrapped ErrEntityNotFound ''entity GetProperties''))
   \<and> teardown_reply mem_env dev1 stored_dev1 = (Some dev1, None)
   \<and> exclusive (fst (CreateEntity mem_env dev1 stored_dev1))
   \<and> exclusive (fst (DeleteEntity mem_env dev1 stored_dev1))
   \<and> exclusive (fst (GetProperties mem_env dev1 stored_dev1))
   \<and> exclusive (fst (SetProperties mem_env dev1 stored_dev1))
   \<and> exclusive (fst (SetConfigs mem_env dev1 stored_dev1))
   \<and> exclusive (fst (PatchEntity mem_env dev1 [] stored_dev1))
   \<and> exclusive (fst (AppendMapper mem_env dev1 stored_dev1))
   \<and> exclusive (fst (RemoveMapper mem_env dev1 stored_dev1))
   \<and> never_both (fst (GetProperties nil_decoder dev1 stored_dev1))
   \<and> never_both (fst (DeleteEntity nil_teardown dev1 stored_dev1))"
  using results_exclusive [of mem_env dev1 stored_dev1 "[]"]
        results_exclusive [of nil_decoder dev1 stored_dev1 "[]"]
        results_exclusive [of nil_teardown dev1 stored_dev1 "[]"]
  by (simp add: mem_env_sel teardown_reply_def)
     (simp add: GetProperties_def stored_dev1_def decoded_dev1_def decode_dev1 mem_eval)

lemma empty_reply_not_found:
  assumes "empty_reply (daprClient_GetState env h EntityStateName (ID en))"
  shows "getEntityFromState env en h =
           ((None, Some ErrEntityNotFound), h @ [CGetState EntityStateName (ID en)])"
  using assms
  by (cases "daprClient_GetState env h EntityStateName (ID en)" rule: empty_reply.cases)
     (simp_all add: getEntityFromState_def Let_def)

text \<open>
  C10. When \<open>GetState\<close> reports no error and yields no item, or an item with an empty
  value, the read is \<open>ErrEntityNotFound\<close>: the decoder plays no part in the result,
  \<open>GetProperties\<close> returns the error wrapped and no snapshot, and so does the final
  read of every mutation (\<open>SetProperties\<close>, \<open>SetConfigs\<close>, \<open>PatchEntity\<close>,
  \<open>AppendMapper\<close>, \<open>RemoveMapper\<close>) whose earlier steps succeeded. The wrapped error
  is still \<open>ErrEntityNotFound\<close> for \<open>errors.Is\<close>.
\<close>

theorem empty_value_not_found:
  "(empty_reply (daprClient_GetState env h EntityStateName (ID en)) \<longrightarrow>
      getEntityFromState env en h =
        ((None, Some ErrEntityNotFound), h @ [CGetState EntityStateName (ID en)])
      \<and> getEntityFromState (env\<lparr>DecodeBase := dec\<rparr>) en h = getEntityFromState env en h
      \<and> GetProperties env en h =
        (Returns None (Some (Wrapped ErrEntityNotFound ''entity GetProperties'')),
         h @ [CGetState EntityStateName (ID en)]))
   \<and> (stateManager_SetProperties env h en = None \<and>
      empty_reply (daprClient_GetState env (h @ [CSetProperties en]) EntityStateName (ID en)) \<longrightarrow>
      SetProperties env en h =
        (Returns None (Some (Wrapped ErrEntityNotFound ''set entity properties'')),
         h @ [CSetProperties en, CGetState EntityStateName (ID en)]))
   \<and> (stateManager_SetConfigs env h en = None \<and>
      empty_reply (daprClient_GetState env (h @ [CSetConfigs en]) EntityStateName (ID en)) \<longrightarrow>
      SetConfigs env en h =
        (Returns None (Some (Wrapped ErrEntityNotFound ''set entity configs'')),
         h @ [CSetConfigs en, CGetState EntityStateName (ID en)]))
   \<and> (stateManager_PatchEntity env h en pd = None \<and>
      empty_reply (daprClient_GetState env (h @ [CPatchEntity en pd]) EntityStateName (ID en)) \<longrightarrow>
      PatchEntity env en pd h =
        (Returns None (Some (Wrapped ErrEntityNotFound ''patch entity properties'')),
         h @ [CPatchEntity en pd, CGetState EntityStateName (ID en)]))
   \<and> (snd (daprClient_GetState env h EntityStateName (ID en)) = None \<and>
      put_mappers env en (Mappers en) (h @ [CGetState EntityStateName (ID en)]) = (None, h2) \<and>
      stateManager_AppendMapper env h2 en = None \<and>
      empty_reply (daprClient_GetState env (h2 @ [CAppendMapper en]) EntityStateName (ID en)) \<longrightarrow>
      AppendMapper env en h =
        (Returns None (Some (Wrapped ErrEntityNotFound ''append mapper'')),
         h2 @ [CAppendMapper en, CGetState EntityStateName (ID en)]))
   \<and> (snd (daprClient_GetState env h EntityStateName (ID en)) = None \<and>
      delete_mappers env en (Mappers en) (h @ [CGetState EntityStateName (ID en)]) = (None, h3) \<and>
      stateManager_RemoveMapper env h3 en = None \<and>
      empty_reply (daprClient_GetState env (h3 @ [CRemoveMapper en]) EntityStateName (ID en)) \<longrightarrow>
      RemoveMapper env en h =
        (Returns None (Some (Wrapped ErrEntityNotFound ''remove mapper'')),
         h3 @ [CRemoveMapper en, CGetState EntityStateName (ID en)]))
   \<and> errors_Is (Some (Wrapped ErrEntityNotFound msg)) ErrEntityNotFound"
proof (intro conjI impI)
  assume e: "empty_reply (daprClient_GetState env h EntityStateName (ID en))"
  then show g: "getEntityFromState env en h =
        ((None, Some ErrEntityNotFound), h @ [CGetState EntityStateName (ID en)])"
    by (rule empty_reply_not_found)
  have "empty_reply (daprClient_GetState (env\<lparr>DecodeBase := dec\<rparr>) h EntityStateName
          (ID en))"
    using e by simp
  from empty_reply_not_found [OF this]
  show "getEntityFromState (env\<lparr>DecodeBase := dec\<rparr>) en h = getEntityFromState env en h"
    by (simp add: g)
  show "GetProperties env en h =
        (Returns None (Some (Wrapped ErrEntityNotFound ''entity GetProperties'')),
         h @ [CGetState EntityStateName (ID en)])"
    by (simp add: GetProperties_def g)
next
  assume "stateManager_SetProperties env h en = None \<and>
      empty_reply (daprClient_GetState env (h @ [CSetProperties en]) EntityStateName (ID en))"
  then show "SetProperties env en h =
        (Returns None (Some (Wrapped ErrEntityNotFound ''set entity properties'')),
         h @ [CSetProperties en, CGetState EntityStateName (ID en)])"
    by (simp add: SetProperties_def Let_def empty_reply_not_found)
next
  assume "stateManager_SetConfigs env h en = None \<and>
      empty_reply (daprClient_GetState env (h @ [CSetConfigs en]) EntityStateName (ID en))"
  then show "SetConfigs env en h =
        (Returns None (Some (Wrapped ErrEntityNotFound ''set entity configs'')),
         h @ [CSetConfigs en, CGetState EntityStateName (ID en)])"
    by (simp add: SetConfigs_def Let_def empty_reply_not_found)
next
  assume "stateManager_PatchEntity env h en pd = None \<and>
      empty_reply (daprClient_GetState env (h @ [CPatchEntity en pd]) EntityStateName (ID en))"
  then show "PatchEntity env en pd h =
        (Returns None (Some (Wrapped ErrEntityNotFound ''patch entity properties'')),
         h @ [CPatchEntity en pd, CGetState EntityStateName (ID en)])"
    by (simp add: PatchEntity_def Let_def empty_reply_not_found)
next
  assume a: "snd (daprClient_GetState env h EntityStateName (ID en)) = None \<and>
      put_mappers env en (Mappers en) (h @ [CGetState EntityStateName (ID en)]) = (None, h2) \<and>
      stateManager_AppendMapper env h2 en = None \<and>
      empty_reply (daprClient_GetState env (h2 @ [CAppendMapper en]) EntityStateName (ID en))"
  then obtain data where "daprClient_GetState env h EntityStateName (ID en) = (data, None)"
    by (cases "daprClient_GetState env h EntityStateName (ID en)") simp
  with a show "AppendMapper env en h =
        (Returns None (Some (Wrapped ErrEntityNotFound ''append mapper'')),
         h2 @ [CAppendMapper en, CGetState EntityStateName (ID en)])"
    by (simp add: AppendMapper_def Let_def empty_reply_not_found)
next
  assume a: "snd (daprClient_GetState env h EntityStateName (ID en)) = None \<and>
      delete_mappers env en (Mappers en) (h @ [CGetState EntityStateName (ID en)]) = (None, h3) \<and>
      stateManager_RemoveMapper env h3 en = None \<and>
      empty_reply (daprClient_GetState env (h3 @ [CRemoveMapper en]) EntityStateName (ID en))"
  then obtain data where "daprClient_GetState env h EntityStateName (ID en) = (data, None)"
    by (cases "daprClient_GetState env h EntityStateName (ID en)") simp
  with a show "RemoveMapper env en h =
        (Returns None (Some (Wrapped ErrEntityNotFound ''remove mapper'')),
         h3 @ [CRemoveMapper en, CGetState EntityStateName (ID en)])"
    by (simp add: RemoveMapper_def Let_def empty_reply_not_found)
next
  show "errors_Is (Some (Wrapped ErrEntityNotFound msg)) ErrEntityNotFound" by simp
qed

theorem empty_value_not_found_witness:
  "empty_reply (daprClient_GetState mem_env [] EntityStateName (ID dev1_rules))
   \<and> empty_reply (daprClient_GetState nil_item [] EntityStateName (ID dev1))
   \<and> GetProperties mem_env dev1_rules [] =
       (Returns None (Some (Wrapped ErrEntityNotFound ''entity GetProperties'')),
        [CGetState ''core-state'' ''dev-1''])
   \<and> GetProperties nil_item dev1 [] =
       (Returns None (Some (Wrapped ErrEntityNotFound ''entity GetProperties'')),
        [CGetState ''core-state'' ''dev-1''])
   \<and> SetProperties mem_env dev1_rules [] =
       (Returns None (Some (Wrapped ErrEntityNotFound ''set entity properties'')),
        [CSetProperties dev1_rules, CGetState ''core-state'' ''dev-1''])
   \<and> SetConfigs nil_item dev1 [] =
       (Returns None (Some (Wrapped ErrEntityNotFound ''set entity configs'')),
        [CSetConfigs dev1, CGetState ''core-state'' ''dev-1''])
   \<and> PatchEntity mem_env dev1_rules [] [] =
       (Returns None (Some (Wrapped ErrEntityNotFound ''patch entity properties'')),
        [CPatchEntity dev1_rules [], CGetState ''core-state'' ''dev-1''])
   \<and> fst (AppendMapper mem_env dev1_rules []) =
       Returns None (Some (Wrapped ErrEntityNotFound ''append mapper''))
   \<and> fst (RemoveMapper mem_env dev1_rules []) =
       Returns None (Some (Wrapped ErrEntityNotFound ''remove mapper''))"
proof -
  note store = empty_value_not_found
    [where env = mem_env and h = "[]" and en = dev1_rules and pd = "[]"
       and ?h2.0 = "[CGetState EntityStateName (ID dev1_rules)] @ put_calls dev1_rules [rule1, rule2]"
       and ?h3.0 = "[CGetState EntityStateName (ID dev1_rules)] @ remove_calls dev1_rules [rule1, rule2]"]
  note nil = empty_value_not_found [where env = nil_item and h = "[]" and en = dev1 and pd = "[]"]
  have e: "empty_reply (daprClient_GetState mem_env k EntityStateName (ID dev1_rules))"
    if "store_of k (''core-state'', ''dev-1'') = None" for k
    using that by (simp add: mem_env_sel dev1_rules_def dev1_def EntityStateName_def)
  have n: "empty_reply (daprClient_GetState nil_item k EntityStateName (ID dev1))" for k
    by (simp add: nil_item_def)
  have loops:
    "put_mappers mem_env dev1_rules (Mappers dev1_rules) [CGetState EntityStateName (ID dev1_rules)] =
       (None, [CGetState EntityStateName (ID dev1_rules)] @ put_calls dev1_rules [rule1, rule2])"
    "delete_mappers mem_env dev1_rules (Mappers dev1_rules) [CGetState EntityStateName (ID dev1_rules)] =
       (None, [CGetState EntityStateName (ID dev1_rules)] @ remove_calls dev1_rules [rule1, rule2])"
    by (simp_all add: dev1_rules_def put_calls_def remove_calls_def mapper_key_def mem_env_sel)
  have s: "store_of [] (''core-state'', ''dev-1'') = None"
          "store_of [CSetProperties dev1_rules] (''core-state'', ''dev-1'') = None"
          "store_of [CPatchEntity dev1_rules []] (''core-state'', ''dev-1'') = None"
          "store_of (([CGetState EntityStateName (ID dev1_rules)] @ put_calls dev1_rules [rule1, rule2])
             @ [CAppendMapper dev1_rules]) (''core-state'', ''dev-1'') = None"
          "store_of (([CGetState EntityStateName (ID dev1_rules)] @ remove_calls dev1_rules [rule1, rule2])
             @ [CRemoveMapper dev1_rules]) (''core-state'', ''dev-1'') = None"
    by (simp_all add: store_of_def store_step_def put_calls_def remove_calls_def)
  have g: "snd (daprClient_GetState mem_env [] EntityStateName (ID dev1_rules)) = None"
    by (simp add: mem_env_sel)
  have rt: "stateManager_SetProperties mem_env k b = None" "stateManager_PatchEntity mem_env k b p = None"
           "stateManager_AppendMapper mem_env k b = None" "stateManager_RemoveMapper mem_env k b = None"
           "stateManager_SetConfigs nil_item k b = None" for k b p
    by (simp_all add: mem_env_sel nil_item_def)
  have id: "ID dev1_rules = ''dev-1''" "ID dev1 = ''dev-1''"
    by (simp_all add: dev1_rules_def dev1_def)
  show ?thesis
    using store nil e [OF s(1)] e [OF s(2)] e [OF s(3)] e [OF s(4)] e [OF s(5)] n loops g rt
    by (simp add: id EntityStateName_def)
qed

end
